theory Spec2Isabelle
  imports Main
begin

section \<open>The WebGL renderer: texture slots, renderer hand-off, context recovery\<close>

text \<open>
  A shallow embedding of the class \<open>WebGLRenderer\<close>. The fields of \<open>this\<close> that the
  operations read or write form a record; every operation takes the record and returns
  the updated one together with its outcome (a returned value or the exception thrown:
  a JavaScript exception leaves the writes made before it in place, so the state is
  returned in both cases).

  Objects (textures, base textures, object renderers, display objects) are compared by
  identity in the source; they are references here, and the fields of texture objects
  are kept per field, indexed by reference.

  The collaborators of the renderer (the WebGL driver, the managers, the object
  renderers, the event emitter, the scene graph) are other classes. Each call that the
  renderer makes on one of them is appended to \<open>trace\<close>, in program order. What the body
  of a collaborator does to the fields of the renderer is a parameter of the model for
  the texture managers, the collector tick and the scene traversal (see
  \<open>collaborators\<close> below); the bodies of the other collaborators (object renderers, state
  manager, render-texture manager, listeners) are not part of the model, which records
  the calls on them.
\<close>

subsection \<open>Data\<close>

type_synonym ref = nat

text \<open>
  An entry of \<open>texture._glTextures\<close>: the object stored under a context id, given by its
  \<open>.texture\<close> field (the driver's handle, or \<open>None\<close> for the plain object \<open>{}\<close> that
  \<open>_initContext\<close> stores in \<open>tempObj\<close>).
\<close>

type_synonym glTexture = "nat option"

type_synonym glmap = "nat \<Rightarrow> glTexture option"

text \<open>A JavaScript array: a hole or \<open>undefined\<close> is \<open>None\<close>.\<close>

type_synonym slots = "ref option list"

text \<open>
  A location, or the counter \<open>_nextTextureLocation\<close>: a slot index, or NaN, which the
  remainder \<open>% 0\<close> on an empty slot table yields and every later step of the arithmetic
  keeps.
\<close>

datatype jsnum = Num nat | NaN

datatype error = TypeError

datatype event =
    ActiveTexture jsnum
  | BindTexture2D glTexture
  | GlFlush
  | RestoreContext
  | GLTexture_fromData nat
  | Construct string
  | State_resetToDefault
  | State_setBlendMode nat
  | State_setState ref
  | TM_updateTexture ref jsnum
  | TM_removeAll
  | NTM_bindTexture ref jsnum
  | Start ref
  | Stop ref
  | Flush ref
  | RenderTexture_bind "ref option"
  | RenderTexture_clear
  | RenderTexture_resize nat nat
  | SystemRenderer_resize nat nat
  | UpdateTransform ref
  | RenderWebGL ref
  | GC_update
  | Emit string

record gl_context =
  isContextLost :: bool
  MAX_TEXTURE_IMAGE_UNITS :: nat
  WEBGL_lose_context :: bool

record renderer =
  gl :: "gl_context option"
  CONTEXT_UID :: nat
  boundTextures :: slots
  boundNaN :: "ref option"
  emptyTextures :: slots
  nextTextureLocation :: jsnum
  textureGC_count :: nat
  textureManager :: bool
  newTextureManager :: bool
  currentRenderer :: "ref option"
  emptyRenderer :: ref
  renderingToScreen :: bool
  clearBeforeRender :: bool
  lastObjectRendered :: "ref option"
  screen :: "nat \<times> nat"
  baseTexture :: "ref \<Rightarrow> ref option"
  glTextures :: "ref \<Rightarrow> glmap"
  newTexture :: "ref \<Rightarrow> ref option"
  touched :: "ref \<Rightarrow> nat"
  nextRef :: ref
  nextHandle :: nat
  trace :: "event list"

text \<open>
  \<open>gl\<close>, \<open>currentRenderer\<close> and \<open>textureManager\<close> are set to null by \<open>destroy()\<close>
  (\<open>None\<close>, \<open>False\<close>); \<open>newTextureManager\<close> is read by \<open>bindTexture\<close> and assigned nowhere in
  the class, it is \<open>True\<close> when some other code has installed one. \<open>textureGC_count\<close> is
  \<open>this.textureGC.count\<close>. \<open>nextRef\<close> and \<open>nextHandle\<close> are the identities that the next
  \<open>new\<close> object and the next driver texture get. \<open>boundNaN\<close> is the property
  \<open>boundTextures[NaN]\<close> of the array object: it is no slot, the scans of \<open>bindTexture\<close> and
  \<open>unbindTexture\<close> do not visit it and it does not count for the length.

  The parameters of the model: what \<open>TextureManager.updateTexture(texture, location)\<close>
  and \<open>newTextureManager.bindTexture(newTexture, location)\<close> do to the slot table, to its
  property \<open>boundTextures[NaN]\<close> and to the per-context handles of the textures, what
  \<open>TextureManager.removeAll()\<close> does to these handles, what
  \<open>displayObject.renderWebGL(renderer)\<close> (the scene traversal, which
  calls back into the renderer) and \<open>textureGC.update()\<close> (the collector tick) do to the
  renderer, and the count of a newly constructed \<open>TextureGarbageCollector\<close>.
\<close>

type_synonym texstate = "slots \<times> ref option \<times> (ref \<Rightarrow> glmap)"

record collaborators =
  updateTexture :: "ref \<Rightarrow> jsnum \<Rightarrow> texstate \<Rightarrow> texstate"
  newBindTexture :: "ref \<Rightarrow> jsnum \<Rightarrow> texstate \<Rightarrow> texstate"
  removeAll :: "(ref \<Rightarrow> glmap) \<Rightarrow> (ref \<Rightarrow> glmap)"
  renderWebGL :: "ref \<Rightarrow> renderer \<Rightarrow> renderer"
  textureGC_update :: "renderer \<Rightarrow> renderer"
  new_gc_count :: nat

subsection \<open>Helpers\<close>

definition call :: "event \<Rightarrow> renderer \<Rightarrow> renderer" where
  "call e s = s\<lparr>trace := trace s @ [e]\<rparr>"

text \<open>Reading \<open>xs[i]\<close>: \<open>undefined\<close> out of range. Writing \<open>xs[i] = v\<close>: the array grows, with holes.\<close>

definition get_slot :: "slots \<Rightarrow> nat \<Rightarrow> ref option" where
  "get_slot xs i = (if i < length xs then xs ! i else None)"

definition set_slot :: "slots \<Rightarrow> nat \<Rightarrow> ref option \<Rightarrow> slots" where
  "set_slot xs i v =
     (if i < length xs then xs[i := v] else xs @ replicate (i - length xs) None @ [v])"

text \<open>
  Reading and writing \<open>this.boundTextures[location]\<close>: a slot for an index, the property
  \<open>boundNaN\<close> for NaN.
\<close>

fun get_bound :: "renderer \<Rightarrow> jsnum \<Rightarrow> ref option" where
  "get_bound s (Num n) = get_slot (boundTextures s) n"
| "get_bound s NaN = boundNaN s"

fun set_bound :: "renderer \<Rightarrow> jsnum \<Rightarrow> ref option \<Rightarrow> renderer" where
  "set_bound s (Num n) v = s\<lparr>boundTextures := set_slot (boundTextures s) n v\<rparr>"
| "set_bound s NaN v = s\<lparr>boundNaN := v\<rparr>"

text \<open>\<open>texture.baseTexture || texture\<close>\<close>

definition resolve :: "renderer \<Rightarrow> ref \<Rightarrow> ref" where
  "resolve s t = (case baseTexture s t of Some b \<Rightarrow> b | None \<Rightarrow> t)"

text \<open>
  The scan of \<open>bindTexture\<close> (lines 402 to 408): the first index \<open>i\<close>, counted from the
  given start, with \<open>boundTextures[i] === texture\<close>.
\<close>

fun scan :: "slots \<Rightarrow> ref \<Rightarrow> nat \<Rightarrow> nat option" where
  "scan [] t i = None"
| "scan (x # xs) t i = (if x = Some t then Some i else scan xs t (Suc i))"

text \<open>
  Lines 412 to 414: the counter after \<open>_nextTextureLocation++\<close> and
  \<open>_nextTextureLocation %= length\<close>, and the location \<open>length - counter - 1\<close>.
  \<open>roundRobin\<close> is the arithmetic on a counter that is a number, for a slot table that is
  not empty; \<open>nextLocation\<close> is the three lines on the values the counter can have: with
  an empty table the remainder is NaN, and a counter that is NaN stays NaN and makes
  the location NaN.
\<close>

definition roundRobin :: "nat \<Rightarrow> nat \<Rightarrow> nat \<times> nat" where
  "roundRobin len counter = (let c = Suc counter mod len in (c, len - c - 1))"

fun nextLocation :: "nat \<Rightarrow> jsnum \<Rightarrow> jsnum \<times> jsnum" where
  "nextLocation len (Num n) =
     (if len = 0 then (NaN, NaN)
      else (Num (fst (roundRobin len n)), Num (snd (roundRobin len n))))"
| "nextLocation len NaN = (NaN, NaN)"

text \<open>Modelled from the spec: the constructor of \<open>BaseTexture\<close> is not in the source at
  hand; the placeholder it makes is a new object with no base texture, no new-style
  texture and no GPU handle (section 4.5: the handle is attached by the initialisation).
  The object literal \<open>tempObj\<close> of \<open>_initContext\<close> is allocated the same way.\<close>

definition new_object :: "renderer \<Rightarrow> ref \<times> renderer" where
  "new_object s =
     (nextRef s,
      s\<lparr>nextRef := Suc (nextRef s),
        baseTexture := (baseTexture s)(nextRef s := None),
        glTextures := (glTextures s)(nextRef s := (\<lambda>_. None)),
        newTexture := (newTexture s)(nextRef s := None),
        touched := (touched s)(nextRef s := 0)\<rparr>)"

subsection \<open>bindTexture and unbindTexture\<close>

text \<open>
  Lines 422 to 450: the bind of the resolved texture \<open>t\<close> at the location \<open>l\<close>. With
  \<open>this.newTextureManager\<close> or \<open>this.textureManager\<close> absent the call on it throws; with
  \<open>this.gl\<close> absent \<open>gl.activeTexture\<close> throws, after the slot has been written. The read
  of line 428 into \<open>glTexture\<close> is not used afterwards and is left out. With the location
  NaN the same lines run: they read and write the property \<open>boundTextures[NaN]\<close>, call
  the driver or the manager with NaN and return NaN.
\<close>

definition bind_at :: "collaborators \<Rightarrow> renderer \<Rightarrow> ref \<Rightarrow> jsnum \<Rightarrow> (error + jsnum) \<times> renderer" where
  "bind_at c s t l =
     (case newTexture s t of
        Some nt \<Rightarrow>
          if newTextureManager s then
            (let s1 = call (NTM_bindTexture nt l) s;
                 (bt, bn, g) = newBindTexture c nt l (boundTextures s1, boundNaN s1, glTextures s1)
             in (Inr l, s1\<lparr>boundTextures := bt, boundNaN := bn, glTextures := g\<rparr>))
          else (Inl TypeError, s)
      | None \<Rightarrow>
          (case glTextures s t (CONTEXT_UID s) of
             None \<Rightarrow>
               if textureManager s then
                 (let s1 = call (TM_updateTexture t l) s;
                      (bt, bn, g) = updateTexture c t l (boundTextures s1, boundNaN s1, glTextures s1)
                  in (Inr l, s1\<lparr>boundTextures := bt, boundNaN := bn, glTextures := g\<rparr>))
               else (Inl TypeError, s)
           | Some glt \<Rightarrow>
               if get_bound s l = Some t then (Inr l, s)
               else
                 (let s1 = set_bound s l (Some t)
                  in case gl s1 of
                       None \<Rightarrow> (Inl TypeError, s1)
                     | Some _ \<Rightarrow> (Inr l, call (BindTexture2D glt) (call (ActiveTexture l) s1)))))"

text \<open>
  \<open>bindTexture(texture, location, forceLocation)\<close>. An absent texture is \<open>None\<close>, an
  absent location is \<open>None\<close>. Line 395, \<open>texture || this.emptyTextures[location]\<close>, is
  \<open>argTexture\<close>; when it yields \<open>undefined\<close>, line 396 throws. A location given by the
  caller is a slot index; the location that the call itself chooses, and the value it
  returns, can be NaN (see \<open>nextLocation\<close>).
\<close>

definition argTexture :: "renderer \<Rightarrow> ref option \<Rightarrow> nat option \<Rightarrow> ref option" where
  "argTexture s texture location =
     (case texture of
        Some t0 \<Rightarrow> Some t0
      | None \<Rightarrow> (case location of None \<Rightarrow> None | Some l \<Rightarrow> get_slot (emptyTextures s) l))"

definition bindTexture ::
  "collaborators \<Rightarrow> renderer \<Rightarrow> ref option \<Rightarrow> nat option \<Rightarrow> bool \<Rightarrow> (error + jsnum) \<times> renderer" where
  "bindTexture c s texture location forceLocation =
     (case argTexture s texture location of
        None \<Rightarrow> (Inl TypeError, s)
      | Some t0 \<Rightarrow>
          (let t = resolve s t0;
               s1 = s\<lparr>touched := (touched s)(t := textureGC_count s)\<rparr>
           in if \<not> forceLocation then
                (case scan (boundTextures s1) t 0 of
                   Some i \<Rightarrow> (Inr (Num i), s1)
                 | None \<Rightarrow>
                     (case location of
                        Some l \<Rightarrow> bind_at c s1 t (Num l)
                      | None \<Rightarrow>
                          (let (n, l) = nextLocation (length (boundTextures s1)) (nextTextureLocation s1)
                           in bind_at c (s1\<lparr>nextTextureLocation := n\<rparr>) t l)))
              else bind_at c s1 t (Num (case location of None \<Rightarrow> 0 | Some l \<Rightarrow> l))))"

text \<open>
  \<open>unbindTexture(texture)\<close>: the loop of lines 465 to 474 from index \<open>i\<close>. The arguments of
  \<open>gl.bindTexture\<close> are evaluated after \<open>gl.activeTexture\<close> has been called.
\<close>

function unbindLoop :: "ref \<Rightarrow> nat \<Rightarrow> renderer \<Rightarrow> error option \<times> renderer" where
  "unbindLoop t i s =
     (if i < length (boundTextures s) then
        (if boundTextures s ! i = Some t then
           (let s1 = s\<lparr>boundTextures := (boundTextures s)[i := get_slot (emptyTextures s) i]\<rparr>
            in case gl s1 of
                 None \<Rightarrow> (Some TypeError, s1)
               | Some _ \<Rightarrow>
                   (let s2 = call (ActiveTexture (Num i)) s1
                    in case get_slot (emptyTextures s2) i of
                         None \<Rightarrow> (Some TypeError, s2)
                       | Some e \<Rightarrow>
                           (case glTextures s2 e (CONTEXT_UID s2) of
                              None \<Rightarrow> (Some TypeError, s2)
                            | Some glt \<Rightarrow> unbindLoop t (Suc i) (call (BindTexture2D glt) s2))))
         else unbindLoop t (Suc i) s)
      else (None, s))"
  by pat_completeness auto
termination
  by (relation "measure (\<lambda>(t, i, s). length (boundTextures s) - i)") (auto simp: call_def)

declare unbindLoop.simps [simp del]

definition unbindTexture :: "renderer \<Rightarrow> ref \<Rightarrow> error option \<times> renderer" where
  "unbindTexture s texture = unbindLoop (resolve s texture) 0 s"

subsection \<open>Object renderer hand-off\<close>

text \<open>
  \<open>setObjectRenderer(objectRenderer)\<close> and \<open>flush()\<close>. \<open>State_setState r\<close> is the call
  \<open>this.state.setState(r.state)\<close>.
\<close>

definition setObjectRenderer :: "renderer \<Rightarrow> ref \<Rightarrow> error option \<times> renderer" where
  "setObjectRenderer s objectRenderer =
     (if currentRenderer s = Some objectRenderer then (None, s)
      else
        (case currentRenderer s of
           None \<Rightarrow> (Some TypeError, s)
         | Some cur \<Rightarrow>
             (let s1 = call (Stop cur) s;
                  s2 = s1\<lparr>currentRenderer := Some objectRenderer\<rparr>;
                  s3 = call (State_setState objectRenderer) s2
              in case currentRenderer s3 of
                   None \<Rightarrow> (Some TypeError, s3)
                 | Some r \<Rightarrow> (None, call (Start r) s3))))"

definition flush :: "renderer \<Rightarrow> error option \<times> renderer" where
  "flush s = setObjectRenderer s (emptyRenderer s)"

subsection \<open>render\<close>

text \<open>
  \<open>render(displayObject, renderTexture, clear, transform, skipUpdateTransform)\<close>; the
  body does not use \<open>transform\<close>. An absent \<open>renderTexture\<close> or \<open>clear\<close> is \<open>None\<close>. The
  update of the scene graph (lines 297 to 301) writes the display object only and is
  one event.
\<close>

definition render ::
  "collaborators \<Rightarrow> renderer \<Rightarrow> ref \<Rightarrow> ref option \<Rightarrow> bool option \<Rightarrow> bool \<Rightarrow> error option \<times> renderer" where
  "render c s displayObject renderTexture clear skipUpdateTransform =
     (let s1 = s\<lparr>renderingToScreen := (renderTexture = None)\<rparr>;
          s2 = call (Emit ''prerender'') s1
      in case gl s2 of
           None \<Rightarrow> (None, s2)
         | Some g \<Rightarrow>
             if isContextLost g then (None, s2)
             else
               (let s3 = s2\<lparr>nextTextureLocation := Num 0\<rparr>;
                    s4 = (if renderTexture = None then s3\<lparr>lastObjectRendered := Some displayObject\<rparr> else s3);
                    s5 = (if \<not> skipUpdateTransform then call (UpdateTransform displayObject) s4 else s4);
                    s6 = call (RenderTexture_bind renderTexture) s5
                in case currentRenderer s6 of
                     None \<Rightarrow> (Some TypeError, s6)
                   | Some cur \<Rightarrow>
                       (let s7 = call (Start cur) s6;
                            s8 = (if (case clear of Some b \<Rightarrow> b | None \<Rightarrow> clearBeforeRender s7)
                                  then call RenderTexture_clear s7 else s7);
                            s9 = renderWebGL c displayObject (call (RenderWebGL displayObject) s8)
                        in case currentRenderer s9 of
                             None \<Rightarrow> (Some TypeError, s9)
                           | Some cur' \<Rightarrow>
                               (let s10 = textureGC_update c (call GC_update (call (Flush cur') s9))
                                in case gl s10 of
                                     None \<Rightarrow> (Some TypeError, s10)
                                   | Some _ \<Rightarrow> (None, call (Emit ''postrender'') (call GlFlush s10))))))"

subsection \<open>Context initialisation and restoration\<close>

definition resize :: "renderer \<Rightarrow> nat \<Rightarrow> nat \<Rightarrow> renderer" where
  "resize s screenWidth screenHeight =
     call (RenderTexture_resize screenWidth screenHeight)
       (call (SystemRenderer_resize screenWidth screenHeight) s)"

text \<open>
  The loop of \<open>_initContext\<close> (lines 245 to 254) from index \<open>i\<close>; \<open>h\<close> is the handle of
  \<open>emptyGLTexture\<close>. An exception of \<open>bindTexture\<close> ends the loop.
\<close>

function initSlots ::
  "collaborators \<Rightarrow> nat \<Rightarrow> ref \<Rightarrow> nat \<Rightarrow> nat \<Rightarrow> renderer \<Rightarrow> error option \<times> renderer" where
  "initSlots c h tempObj i maxTextures s =
     (if i < maxTextures then
        (let (empty, s1) = new_object s;
             s2 = s1\<lparr>glTextures := (glTextures s1)(empty := (glTextures s1 empty)(CONTEXT_UID s1 := Some (Some h)))\<rparr>;
             s3 = s2\<lparr>boundTextures := set_slot (boundTextures s2) i (Some tempObj)\<rparr>;
             s4 = s3\<lparr>emptyTextures := set_slot (emptyTextures s3) i (Some empty)\<rparr>
         in case bindTexture c s4 None (Some i) False of
              (Inl e, s5) \<Rightarrow> (Some e, s5)
            | (Inr _, s5) \<Rightarrow> initSlots c h tempObj (Suc i) maxTextures s5)
      else (None, s))"
  by pat_completeness auto
termination
  by (relation "measure (\<lambda>(c, h, tempObj, i, maxTextures, s). maxTextures - i)") auto

declare initSlots.simps [simp del]

definition initContext :: "collaborators \<Rightarrow> renderer \<Rightarrow> error option \<times> renderer" where
  "initContext c s =
     (case gl s of
        None \<Rightarrow> (Some TypeError, s)
      | Some g \<Rightarrow>
          (let s1 = (if isContextLost g \<and> WEBGL_lose_context g then call RestoreContext s else s);
               maxTextures = MAX_TEXTURE_IMAGE_UNITS g;
               s2 = s1\<lparr>boundTextures := replicate maxTextures None, boundNaN := None,
                       emptyTextures := replicate maxTextures None\<rparr>;
               s3 = (call (Construct ''TextureManager'') s2)\<lparr>textureManager := True\<rparr>;
               s4 = (call (Construct ''TextureGarbageCollector'') s3)\<lparr>textureGC_count := new_gc_count c\<rparr>;
               s5 = call State_resetToDefault (call (Construct ''ShaderManager'') s4);
               h = nextHandle s5;
               s6 = (call (GLTexture_fromData h) s5)\<lparr>nextHandle := Suc h\<rparr>;
               (tempObj, s7) = new_object s6;
               s8 = s7\<lparr>glTextures := (glTextures s7)(tempObj := (glTextures s7 tempObj)(CONTEXT_UID s7 := Some None))\<rparr>
           in case initSlots c h tempObj 0 maxTextures s8 of
                (Some e, s9) \<Rightarrow> (Some e, s9)
              | (None, s9) \<Rightarrow>
                  (None, resize (call (Emit ''context'') s9) (fst (screen s9)) (snd (screen s9)))))"


subsection \<open>Construction\<close>

text \<open>
  The constructor (lines 63 to 208), for the fields above. \<open>ctx\<close> is the context that
  \<open>options.context || glCore.createContext(...)\<close> yields and \<open>uid\<close> the value of the
  module-level counter \<open>CONTEXT_UID\<close>, which the constructor reads and increments (line
  157), the only place of the class that does. \<open>clearBefore\<close> and \<open>scr\<close> are what the
  base class stores as \<open>clearBeforeRender\<close> and \<open>screen\<close>. The empty object renderer is
  object 0, and the trace starts with the managers that the constructor builds. Until
  line 204 \<open>_nextTextureLocation\<close> is \<open>undefined\<close>, which the arithmetic of lines 412 to
  414 turns into NaN.
\<close>

definition WebGLRenderer ::
  "collaborators \<Rightarrow> gl_context \<Rightarrow> nat \<Rightarrow> bool \<Rightarrow> nat \<times> nat \<Rightarrow> error option \<times> renderer" where
  "WebGLRenderer c ctx uid clearBefore scr =
     (let s0 = \<lparr>gl = Some ctx, CONTEXT_UID = uid, boundTextures = [], boundNaN = None,
                emptyTextures = [],
                nextTextureLocation = NaN, textureGC_count = 0, textureManager = False,
                newTextureManager = False, currentRenderer = Some 0, emptyRenderer = 0,
                renderingToScreen = True, clearBeforeRender = clearBefore,
                lastObjectRendered = None, screen = scr,
                baseTexture = (\<lambda>_. None), glTextures = (\<lambda>_ _. None),
                newTexture = (\<lambda>_. None), touched = (\<lambda>_. 0),
                nextRef = 1, nextHandle = 0,
                trace = [Construct ''MaskManager'', Construct ''StencilManager'',
                         Construct ''ObjectRenderer'', Construct ''FramebufferManager'',
                         Construct ''NewTextureManager'', Construct ''RenderTextureManager'',
                         Construct ''ProjectionManager'', Construct ''StateManager'',
                         State_setBlendMode 0]\<rparr>
      in case initContext c s0 of
           (Some e, s1) \<Rightarrow> (Some e, s1)
         | (None, s1) \<Rightarrow>
             (None, (call (Construct ''FilterManager'') s1)\<lparr>nextTextureLocation := Num 0\<rparr>))"

subsection \<open>Notions used in the statements\<close>

text \<open>Every call on a collaborator other than a notification to listeners.\<close>

fun gpu_work :: "event \<Rightarrow> bool" where
  "gpu_work (Emit _) = False"
| "gpu_work _ = True"

text \<open>The entry check of \<open>render\<close> (line 282): \<open>!this.gl || this.gl.isContextLost()\<close>.\<close>

definition context_unusable :: "renderer \<Rightarrow> bool" where
  "context_unusable s = (case gl s of None \<Rightarrow> True | Some g \<Rightarrow> isContextLost g)"

text \<open>
  The driver binds of a texture: the calls \<open>gl.bindTexture(gl.TEXTURE_2D, ...)\<close> that the
  renderer makes itself, and the binds that \<open>bindTexture\<close> hands to a manager:
  \<open>newTextureManager.bindTexture\<close> (line 427) and \<open>textureManager.updateTexture\<close> (line
  436, \<open>this will also bind the texture\<close>). \<open>gl_texture_call\<close>: the calls on the driver
  that the renderer makes itself for a texture unit.
\<close>

fun is_driver_bind :: "event \<Rightarrow> bool" where
  "is_driver_bind (BindTexture2D _) = True"
| "is_driver_bind (TM_updateTexture _ _) = True"
| "is_driver_bind (NTM_bindTexture _ _) = True"
| "is_driver_bind _ = False"


definition driver_binds :: "event list \<Rightarrow> nat" where
  "driver_binds tr = length (filter is_driver_bind tr)"




text \<open>
  The locations that \<open>k\<close> successive round-robin choices yield, and the calls
  \<open>bindTexture(t)\<close>, with no location and no force, for each texture of a list in turn.
\<close>

fun chosen :: "nat \<Rightarrow> nat \<Rightarrow> nat \<Rightarrow> nat list" where
  "chosen len counter 0 = []"
| "chosen len counter (Suc k) = (let (n, l) = roundRobin len counter in l # chosen len n k)"

fun bindEach :: "collaborators \<Rightarrow> renderer \<Rightarrow> ref list \<Rightarrow> (error + jsnum) list \<times> renderer" where
  "bindEach c s [] = ([], s)"
| "bindEach c s (t # ts) =
     (let (r, s1) = bindTexture c s (Some t) None False;
          (rs, s2) = bindEach c s1 ts
      in (r # rs, s2))"

text \<open>
  For the initialisation: the slot table when the placeholders of the slots below \<open>i\<close>
  are in place (the placeholder of slot \<open>k\<close> is object \<open>r + k\<close>), a field of the texture
  objects set to \<open>v\<close> for the objects from \<open>lo\<close> up to \<open>hi\<close>, and the driver calls that
  bind the GPU texture \<open>h\<close> to the slots from \<open>i\<close> up to \<open>n\<close>.
\<close>

definition placeholders :: "ref \<Rightarrow> nat \<Rightarrow> nat \<Rightarrow> slots" where
  "placeholders r i n = map (\<lambda>k. Some (r + k)) [0..<i] @ replicate (n - i) None"

definition fill :: "nat \<Rightarrow> nat \<Rightarrow> (ref \<Rightarrow> 'a) \<Rightarrow> 'a \<Rightarrow> ref \<Rightarrow> 'a" where
  "fill lo hi f v = (\<lambda>x. if lo \<le> x \<and> x < hi then v else f x)"

definition slot_binds :: "nat \<Rightarrow> nat \<Rightarrow> nat \<Rightarrow> event list" where
  "slot_binds h i n = concat (map (\<lambda>k. [ActiveTexture (Num k), BindTexture2D (Some h)]) [i..<n])"

text \<open>
  Slot exclusivity: the slots that hold a texture hold pairwise different textures.
  \<open>bindAll\<close> is a sequence of calls \<open>bindTexture(texture, location)\<close> without force.
\<close>

definition exclusive :: "slots \<Rightarrow> bool" where
  "exclusive bt \<longleftrightarrow> distinct (filter (\<lambda>x. x \<noteq> None) bt)"

fun bindAll :: "collaborators \<Rightarrow> renderer \<Rightarrow> (ref option \<times> nat option) list \<Rightarrow> renderer" where
  "bindAll c s [] = s"
| "bindAll c s ((texture, location) # calls) =
     bindAll c (snd (bindTexture c s texture location False)) calls"

text \<open>
  The slot table with the texture recorded at a location; with the location NaN the
  slots are as they were.
\<close>

fun record_at :: "slots \<Rightarrow> jsnum \<Rightarrow> ref \<Rightarrow> slots" where
  "record_at bt (Num n) t = set_slot bt n (Some t)"
| "record_at bt NaN t = bt"

text \<open>
  What the slot-exclusivity of the renderer asks of the two texture managers, whose
  code is not at hand: \<open>TextureManager.updateTexture(texture, location)\<close> leaves the slot
  table as it is or records the texture at the location, and
  \<open>newTextureManager.bindTexture\<close> leaves the slot table of the renderer as it is.
\<close>

definition table_contract :: "collaborators \<Rightarrow> bool" where
  "table_contract c \<longleftrightarrow>
     (\<forall>t l bt bn g. fst (updateTexture c t l (bt, bn, g)) = bt
                 \<or> fst (updateTexture c t l (bt, bn, g)) = record_at bt l t)
     \<and> (\<forall>nt l bt bn g. fst (newBindTexture c nt l (bt, bn, g)) = bt)"



text \<open>
  For \<open>unbindTexture(t)\<close>: the GPU texture of the placeholder of slot \<open>i\<close> for the current
  context, the entry of slot \<open>i\<close> after the call, the driver calls made for slot \<open>i\<close>, and
  the condition that every slot holding \<open>t\<close> has a placeholder with such a GPU texture
  (without it line 472 throws).
\<close>

definition placeholder_glt :: "renderer \<Rightarrow> nat \<Rightarrow> glTexture option" where
  "placeholder_glt s i =
     (case get_slot (emptyTextures s) i of
        None \<Rightarrow> None
      | Some e \<Rightarrow> glTextures s e (CONTEXT_UID s))"

definition unbind_slot :: "renderer \<Rightarrow> ref \<Rightarrow> nat \<Rightarrow> ref option" where
  "unbind_slot s t i =
     (if boundTextures s ! i = Some t then get_slot (emptyTextures s) i else boundTextures s ! i)"

definition unbind_calls :: "renderer \<Rightarrow> ref \<Rightarrow> nat \<Rightarrow> event list" where
  "unbind_calls s t i =
     (if boundTextures s ! i = Some t
      then (case placeholder_glt s i of
              None \<Rightarrow> [ActiveTexture (Num i)]
            | Some glt \<Rightarrow> [ActiveTexture (Num i), BindTexture2D glt])
      else [])"

definition placeholders_ready :: "renderer \<Rightarrow> ref \<Rightarrow> bool" where
  "placeholders_ready s t \<longleftrightarrow>
     (\<forall>i < length (boundTextures s). boundTextures s ! i = Some t \<longrightarrow> placeholder_glt s i \<noteq> None)"

subsection \<open>A concrete renderer\<close>

text \<open>
  A renderer with two texture units as the constructor leaves it (the empty object
  renderer is object 0, \<open>tempObj\<close> object 1, the placeholders objects 2 and 3, with the
  driver texture 0), with an empty trace, and four textures of the application: the
  base textures 10 and 13 with the driver textures 5 and 6, base texture 11 not
  uploaded yet, and texture 12 whose base texture is 10. Its texture manager records
  the texture it uploads in the slot, its new-style texture manager leaves the table
  of the renderer alone, and its \<open>removeAll\<close> drops the handles under the context id 0 of
  these textures and placeholders (the objects below 14). \<open>demo_new\<close> is the same
  renderer with a new-style texture manager installed and a texture 20 that has the
  new-style texture 21.
\<close>

definition demo_ctx :: gl_context where
  "demo_ctx = \<lparr>isContextLost = False, MAX_TEXTURE_IMAGE_UNITS = 2, WEBGL_lose_context = True\<rparr>"

definition demo_collab :: collaborators where
  "demo_collab =
     \<lparr>updateTexture = (\<lambda>t l (bt, bn, g). (record_at bt l t, bn, g(t := (g t)(0 := Some (Some 7))))),
      newBindTexture = (\<lambda>nt l x. x),
      removeAll = (\<lambda>g x. if x < 14 then (g x)(0 := None) else g x),
      renderWebGL = (\<lambda>d s. s),
      textureGC_update = (\<lambda>s. s),
      new_gc_count = 0\<rparr>"

definition demo :: renderer where
  "demo =
     \<lparr>gl = Some demo_ctx, CONTEXT_UID = 0,
      boundTextures = [Some 2, Some 3], boundNaN = None, emptyTextures = [Some 2, Some 3],
      nextTextureLocation = Num 0, textureGC_count = 0, textureManager = True,
      newTextureManager = False, currentRenderer = Some 0, emptyRenderer = 0,
      renderingToScreen = True, clearBeforeRender = True,
      lastObjectRendered = None, screen = (800, 600),
      baseTexture = (\<lambda>_. None)(12 := Some 10),
      glTextures = (\<lambda>_ _. None)
        (1 := (\<lambda>_. None)(0 := Some None),
         2 := (\<lambda>_. None)(0 := Some (Some 0)),
         3 := (\<lambda>_. None)(0 := Some (Some 0)),
         10 := (\<lambda>_. None)(0 := Some (Some 5)),
         13 := (\<lambda>_. None)(0 := Some (Some 6))),
      newTexture = (\<lambda>_. None), touched = (\<lambda>_. 0),
      nextRef = 14, nextHandle = 7, trace = []\<rparr>"

definition demo_lost :: renderer where
  "demo_lost = demo\<lparr>gl := Some (demo_ctx\<lparr>isContextLost := True\<rparr>)\<rparr>"


text \<open>The same renderer after \<open>bindTexture(12, undefined, true)\<close>.\<close>

definition demo_bound :: renderer where
  "demo_bound = snd (bindTexture demo_collab demo (Some 12) None True)"

section \<open>Properties\<close>

subsection \<open>Slots, scan and round robin\<close>

lemma scan_None: "scan xs t i = None \<longleftrightarrow> Some t \<notin> set xs"
  by (induction xs arbitrary: i) auto



lemma set_slot_in_range: "i < length xs \<Longrightarrow> set_slot xs i v = xs[i := v]"
  by (simp add: set_slot_def)

lemma get_set_slot: "get_slot (set_slot xs i v) i = v"
  by (simp add: get_slot_def set_slot_def nth_append)


lemma set_bound_frame [simp]:
  "nextTextureLocation (set_bound s l v) = nextTextureLocation s"
  "CONTEXT_UID (set_bound s l v) = CONTEXT_UID s"
  "gl (set_bound s l v) = gl s"
  "baseTexture (set_bound s l v) = baseTexture s"
  "newTexture (set_bound s l v) = newTexture s"
  "glTextures (set_bound s l v) = glTextures s"
  "emptyTextures (set_bound s l v) = emptyTextures s"
  "trace (set_bound s l v) = trace s"
  by (cases l; simp)+

lemma set_bound_table [simp]:
  "boundTextures (set_bound s l (Some t)) = record_at (boundTextures s) l t"
  by (cases l) simp_all

lemma bind_at_frame:
  "nextTextureLocation (snd (bind_at c s t l)) = nextTextureLocation s"
  "CONTEXT_UID (snd (bind_at c s t l)) = CONTEXT_UID s"
  "gl (snd (bind_at c s t l)) = gl s"
  "baseTexture (snd (bind_at c s t l)) = baseTexture s"
  "newTexture (snd (bind_at c s t l)) = newTexture s"
  "emptyTextures (snd (bind_at c s t l)) = emptyTextures s"
  by (simp_all add: bind_at_def call_def Let_def split: option.split prod.split)

lemma bind_at_returns: "fst (bind_at c s t l) = Inr i \<Longrightarrow> i = l"
  by (simp add: bind_at_def call_def Let_def split: option.splits prod.splits if_splits)

lemma chosen_closed:
  "chosen len c k = map (\<lambda>j. len - Suc ((c + j) mod len)) [1..<Suc k]"
proof (induction k arbitrary: c)
  case 0
  show ?case by simp
next
  case (Suc k)
  have shift: "(Suc c mod len + j) mod len = (c + Suc j) mod len" for j
    by (simp add: mod_add_left_eq)
  have "[1..<Suc (Suc k)] = 1 # map Suc [1..<Suc k]"
    by (simp add: map_Suc_upt upt_conv_Cons)
  then show ?case
    by (simp add: roundRobin_def Let_def Suc.IH shift comp_def)
qed

lemma residues_inj: 
  assumes "0 < len"
  shows "inj_on (\<lambda>j. (c + j) mod len) {1..<Suc len}"
proof (rule inj_onI)
  fix x y
  assume x: "x \<in> {1..<Suc len}" and y: "y \<in> {1..<Suc len}"
    and e: "(c + x) mod len = (c + y) mod len"
  show "x = y"
  proof (rule ccontr)
    assume ne: "x \<noteq> y"
    have *: "a = b" if "a \<le> b" "b \<le> len" "1 \<le> a" "(c + a) mod len = (c + b) mod len" for a b
    proof (rule ccontr)
      assume "a \<noteq> b"
      with that have pos: "0 < b - a" and small: "b - a < len"
        by simp_all
      have "c + a \<le> c + b"
        using that by simp
      from mod_eq_dvd_iff_nat [OF this, of len] that(4) have "len dvd (c + b) - (c + a)"
        by simp
      then have "len dvd b - a"
        by simp
      with nat_dvd_not_less [OF pos small] show False
        by simp
    qed
    from x y e ne show False
      using * [of x y] * [of y x] by (cases "x \<le> y") auto
  qed
qed

lemma chosen_cycle:
  assumes "0 < len"
  shows "set (chosen len c len) = {0..<len}" and "distinct (chosen len c len)"
proof -
  let ?f = "\<lambda>j. (c + j) mod len"
  let ?g = "\<lambda>r. len - Suc r"
  have img: "?f ` {1..<Suc len} = {0..<len}"
  proof (rule card_subset_eq)
    show "finite {0..<len}" by simp
    show "?f ` {1..<Suc len} \<subseteq> {0..<len}" using assms by auto
    show "card (?f ` {1..<Suc len}) = card {0..<len}"
      using residues_inj [OF assms, of c] by (simp add: card_image)
  qed
  have g_img: "?g ` {0..<len} = {0..<len}"
  proof (rule card_subset_eq)
    show "finite {0..<len}" by simp
    show "?g ` {0..<len} \<subseteq> {0..<len}" using assms by auto
    have "inj_on ?g {0..<len}" by (rule inj_onI) auto
    then show "card (?g ` {0..<len}) = card {0..<len}" by (simp add: card_image)
  qed
  have "set (chosen len c len) = ?g ` (?f ` {1..<Suc len})"
    unfolding chosen_closed by (simp only: set_map set_upt image_image)
  with img g_img show "set (chosen len c len) = {0..<len}" by simp
  have "inj_on (\<lambda>j. ?g (?f j)) {1..<Suc len}"
  proof (rule inj_onI)
    fix x y assume x: "x \<in> {1..<Suc len}" and y: "y \<in> {1..<Suc len}" and e: "?g (?f x) = ?g (?f y)"
    have "?f x < len" "?f y < len" using assms by simp_all
    with e have "?f x = ?f y" by linarith
    with residues_inj [OF assms, of c] x y show "x = y" by (auto dest: inj_onD)
  qed
  then show "distinct (chosen len c len)"
    by (simp only: chosen_closed distinct_map distinct_upt set_upt simp_thms)
qed

subsection \<open>render on an unusable context\<close>

lemma render_unusable:
  assumes "context_unusable s"
  shows "render c s displayObject renderTexture clear skipUpdateTransform =
     (None, s\<lparr>renderingToScreen := (renderTexture = None),
              trace := trace s @ [Emit ''prerender'']\<rparr>)"
  using assms
  by (cases "gl s") (simp_all add: render_def context_unusable_def call_def Let_def)

text \<open>
  C4: a call of \<open>render\<close> made while the context is lost, or while \<open>gl\<close> is absent,
  returns without an exception, and does no work on the GPU: the calls it makes on its
  collaborators contain no render-target bind, no start or flush of an object renderer,
  no texture bind, no clear, no collector tick and no driver flush, and the renderer is
  left as it was but for the \<open>renderingToScreen\<close> flag and the trace.
\<close>

theorem render_lost_is_noop:
  assumes "context_unusable s"
  shows "fst (render c s displayObject renderTexture clear skipUpdateTransform) = None
    \<and> filter gpu_work (trace (snd (render c s displayObject renderTexture clear skipUpdateTransform)))
        = filter gpu_work (trace s)
    \<and> (snd (render c s displayObject renderTexture clear skipUpdateTransform))
         \<lparr>renderingToScreen := renderingToScreen s, trace := trace s\<rparr> = s"
  by (simp add: render_unusable [OF assms])

theorem render_lost_is_noop_witness:
  "context_unusable demo_lost
   \<and> fst (render demo_collab demo_lost 20 None None False) = None
   \<and> filter gpu_work (trace (snd (render demo_collab demo_lost 20 None None False)))
        = filter gpu_work (trace demo_lost)"
  using render_lost_is_noop [of demo_lost demo_collab 20 None None False]
  by (simp add: context_unusable_def demo_lost_def)

text \<open>
  C10: when the context is lost, \<open>render\<close> still emits the notification \<open>prerender\<close> and
  still updates \<open>renderingToScreen\<close> (both come before the entry check), and it does not
  emit \<open>postrender\<close>: the calls of this invocation are the one notification.
\<close>

theorem render_lost_notifications:
  assumes "gl s = Some g" and "isContextLost g"
  shows "trace (snd (render c s displayObject renderTexture clear skipUpdateTransform))
           = trace s @ [Emit ''prerender'']
    \<and> renderingToScreen (snd (render c s displayObject renderTexture clear skipUpdateTransform))
           = (renderTexture = None)
    \<and> Emit ''postrender'' \<notin> set (drop (length (trace s))
           (trace (snd (render c s displayObject renderTexture clear skipUpdateTransform))))"
  using assms
  by (simp add: render_def call_def Let_def)

theorem render_lost_notifications_witness:
  "gl demo_lost = Some (demo_ctx\<lparr>isContextLost := True\<rparr>)
   \<and> isContextLost (demo_ctx\<lparr>isContextLost := True\<rparr>)
   \<and> trace (snd (render demo_collab demo_lost 20 (Some 30) None False))
        = trace demo_lost @ [Emit ''prerender'']
   \<and> renderingToScreen (snd (render demo_collab demo_lost 20 (Some 30) None False)) = False"
  using render_lost_notifications
    [of demo_lost "demo_ctx\<lparr>isContextLost := True\<rparr>" demo_collab 20 "Some 30" None False]
  by (simp add: demo_lost_def)

subsection \<open>Object renderer hand-off\<close>

text \<open>
  C5: \<open>setObjectRenderer(next)\<close> does nothing when \<open>next\<close> is the current renderer.
  Otherwise it calls \<open>stop()\<close> on the previous current renderer, makes \<open>next\<close> current,
  applies \<open>next.state\<close> to the state manager and calls \<open>start()\<close> on \<open>next\<close>, in this
  order; a second call with the same argument adds nothing, so the two calls together
  make one \<open>stop()\<close> and one \<open>start()\<close>.
\<close>

theorem setObjectRenderer_switch:
  "(currentRenderer s = Some nxt \<longrightarrow> setObjectRenderer s nxt = (None, s))
   \<and> (currentRenderer s = Some cur \<and> cur \<noteq> nxt \<longrightarrow>
        setObjectRenderer s nxt =
          (None, s\<lparr>currentRenderer := Some nxt,
                   trace := trace s @ [Stop cur, State_setState nxt, Start nxt]\<rparr>)
        \<and> setObjectRenderer (snd (setObjectRenderer s nxt)) nxt =
          (None, s\<lparr>currentRenderer := Some nxt,
                   trace := trace s @ [Stop cur, State_setState nxt, Start nxt]\<rparr>))"
  by (simp add: setObjectRenderer_def call_def Let_def)

theorem setObjectRenderer_switch_witness:
  "currentRenderer demo = Some 0 \<and> (0::nat) \<noteq> 4
   \<and> setObjectRenderer demo 0 = (None, demo)
   \<and> setObjectRenderer demo 4 =
        (None, demo\<lparr>currentRenderer := Some 4,
                    trace := trace demo @ [Stop 0, State_setState 4, Start 4]\<rparr>)
   \<and> setObjectRenderer (snd (setObjectRenderer demo 4)) 4 =
        (None, demo\<lparr>currentRenderer := Some 4,
                    trace := trace demo @ [Stop 0, State_setState 4, Start 4]\<rparr>)"
proof -
  have cur: "currentRenderer demo = Some 0"
    by (simp add: demo_def)
  have ne: "(0::nat) \<noteq> 4"
    by simp
  show ?thesis
    using setObjectRenderer_switch [of demo 0 0] setObjectRenderer_switch [of demo 4 0] cur ne
    by blast
qed

text \<open>
  C9: \<open>flush()\<close> is \<open>setObjectRenderer(emptyRenderer)\<close>: in every state it returns the
  same outcome and the same renderer, with the same calls of \<open>stop()\<close>, of the state
  manager and of \<open>start()\<close>, as the hand-over to the empty renderer.
\<close>

theorem flush_is_setObjectRenderer:
  "flush s = setObjectRenderer s (emptyRenderer s)
   \<and> flush s =
       (case currentRenderer s of
          None \<Rightarrow> (Some TypeError, s)
        | Some cur \<Rightarrow>
            if cur = emptyRenderer s then (None, s)
            else (None, s\<lparr>currentRenderer := Some (emptyRenderer s),
                          trace := trace s @ [Stop cur, State_setState (emptyRenderer s),
                                              Start (emptyRenderer s)]\<rparr>))"
  by (cases "currentRenderer s") (simp_all add: flush_def setObjectRenderer_def call_def Let_def)

subsection \<open>bindTexture\<close>


lemma bindTexture_round_robin_eq:
  assumes "scan (boundTextures s) (resolve s t0) 0 = None"
    and "0 < length (boundTextures s)" and "nextTextureLocation s = Num n"
  shows "bindTexture c s (Some t0) None False =
           bind_at c
             (s\<lparr>touched := (touched s)(resolve s t0 := textureGC_count s),
                nextTextureLocation := Num (Suc n mod length (boundTextures s))\<rparr>)
             (resolve s t0)
             (Num (length (boundTextures s) - Suc n mod length (boundTextures s) - 1))"
  using assms by (simp add: bindTexture_def argTexture_def roundRobin_def Let_def)

lemma bind_at_direct:
  assumes "newTexture s t = None" and "glTextures s t (CONTEXT_UID s) = Some glt"
    and "gl s = Some g" and "get_slot (boundTextures s) l \<noteq> Some t"
  shows "bind_at c s t (Num l) =
           (Inr (Num l), s\<lparr>boundTextures := set_slot (boundTextures s) l (Some t),
                           trace := trace s @ [ActiveTexture (Num l), BindTexture2D glt]\<rparr>)"
  using assms by (simp add: bind_at_def call_def Let_def)

lemma bind_at_held:
  assumes "newTexture s t = None" and "glTextures s t (CONTEXT_UID s) = Some glt"
    and "get_slot (boundTextures s) l = Some t"
  shows "bind_at c s t (Num l) = (Inr (Num l), s)"
  using assms by (simp add: bind_at_def)

lemma get_slot_mem: "get_slot xs l = Some t \<Longrightarrow> Some t \<in> set xs"
  by (metis get_slot_def nth_mem option.distinct(1))

lemma bindTexture_fresh:
  assumes "Some t \<notin> set (boundTextures s)" and "baseTexture s t = None"
    and "newTexture s t = None" and "glTextures s t (CONTEXT_UID s) = Some glt"
    and "gl s = Some g" and "0 < length (boundTextures s)" and "nextTextureLocation s = Num n"
  shows "bindTexture c s (Some t) None False =
           (Inr (Num (snd (roundRobin (length (boundTextures s)) n))),
            s\<lparr>touched := (touched s)(t := textureGC_count s),
              nextTextureLocation := Num (fst (roundRobin (length (boundTextures s)) n)),
              boundTextures := (boundTextures s)
                 [snd (roundRobin (length (boundTextures s)) n) := Some t],
              trace := trace s @
                 [ActiveTexture (Num (snd (roundRobin (length (boundTextures s)) n))),
                  BindTexture2D glt]\<rparr>)"
proof -
  have r: "resolve s t = t"
    using assms(2) by (simp add: resolve_def)
  have sc: "scan (boundTextures s) (resolve s t) 0 = None"
    using assms(1) by (simp add: r scan_None)
  let ?n = "Suc n mod length (boundTextures s)"
  let ?l = "length (boundTextures s) - ?n - 1"
  let ?s1 = "s\<lparr>touched := (touched s)(t := textureGC_count s), nextTextureLocation := Num ?n\<rparr>"
  have l: "?l < length (boundTextures s)"
    using assms(6) by simp
  have notheld: "get_slot (boundTextures ?s1) ?l \<noteq> Some t"
    using assms(1) get_slot_mem [of "boundTextures s" ?l t] by auto
  have "bind_at c ?s1 t (Num ?l) =
      (Inr (Num ?l), ?s1\<lparr>boundTextures := set_slot (boundTextures ?s1) ?l (Some t),
                           trace := trace ?s1 @ [ActiveTexture (Num ?l), BindTexture2D glt]\<rparr>)"
    by (rule bind_at_direct [where g = g]) (use assms notheld in simp_all)
  then show ?thesis
    using l by (simp add: bindTexture_round_robin_eq [OF sc assms(6,7)] r roundRobin_def Let_def
        set_slot_in_range)
qed

lemma bindEach_fresh:
  assumes "distinct ts"
    and "\<forall>t \<in> set ts. Some t \<notin> set (boundTextures s) \<and> baseTexture s t = None
           \<and> newTexture s t = None \<and> glTextures s t (CONTEXT_UID s) \<noteq> None"
    and "gl s \<noteq> None" and "0 < length (boundTextures s)" and "nextTextureLocation s = Num n"
  shows "fst (bindEach c s ts) =
           map (\<lambda>l. Inr (Num l)) (chosen (length (boundTextures s)) n (length ts))"
  using assms
proof (induction ts arbitrary: s n)
  case Nil
  show ?case by simp
next
  case (Cons t ts)
  from Cons.prems obtain glt g where
    f: "Some t \<notin> set (boundTextures s)" "baseTexture s t = None" "newTexture s t = None"
       "glTextures s t (CONTEXT_UID s) = Some glt" "gl s = Some g"
    by auto
  let ?len = "length (boundTextures s)"
  let ?n = "fst (roundRobin ?len n)"
  let ?l = "snd (roundRobin ?len n)"
  let ?s1 = "s\<lparr>touched := (touched s)(t := textureGC_count s),
              nextTextureLocation := Num ?n,
              boundTextures := (boundTextures s)[?l := Some t],
              trace := trace s @ [ActiveTexture (Num ?l), BindTexture2D glt]\<rparr>"
  have step: "bindTexture c s (Some t) None False = (Inr (Num ?l), ?s1)"
    by (rule bindTexture_fresh [OF f Cons.prems(4,5)])
  have rest: "\<forall>u \<in> set ts. Some u \<notin> set (boundTextures ?s1) \<and> baseTexture ?s1 u = None
           \<and> newTexture ?s1 u = None \<and> glTextures ?s1 u (CONTEXT_UID ?s1) \<noteq> None"
  proof
    fix u assume u: "u \<in> set ts"
    with Cons.prems(1) have "u \<noteq> t" by auto
    moreover from u Cons.prems(2) have "Some u \<notin> set (boundTextures s)" by simp
    ultimately have "Some u \<notin> set ((boundTextures s)[?l := Some t])"
      by (auto dest!: set_update_subset_insert [THEN subsetD])
    with u Cons.prems(2) show "Some u \<notin> set (boundTextures ?s1) \<and> baseTexture ?s1 u = None
           \<and> newTexture ?s1 u = None \<and> glTextures ?s1 u (CONTEXT_UID ?s1) \<noteq> None"
      by simp
  qed
  have d: "distinct ts" using Cons.prems(1) by simp
  have g1: "gl ?s1 \<noteq> None" and l1: "0 < length (boundTextures ?s1)"
    and n1: "nextTextureLocation ?s1 = Num ?n"
    using Cons.prems(3,4) by simp_all
  have "fst (bindEach c ?s1 ts) =
      map (\<lambda>l. Inr (Num l)) (chosen (length (boundTextures ?s1)) ?n (length ts))"
    by (rule Cons.IH [OF d rest g1 l1 n1])
  then show ?case
    by (simp add: step split_beta Let_def)
qed











subsection \<open>The concrete renderer\<close>

lemma demo_fields:
  "gl demo = Some demo_ctx" "CONTEXT_UID demo = 0"
  "boundTextures demo = [Some 2, Some 3]" "emptyTextures demo = [Some 2, Some 3]"
  "boundNaN demo = None"
  "nextTextureLocation demo = Num 0" "textureGC_count demo = 0" "trace demo = []"
  "nextRef demo = 14" "nextHandle demo = 7" "screen demo = (800, 600)"
  "currentRenderer demo = Some 0" "emptyRenderer demo = 0"
  "textureManager demo" "\<not> newTextureManager demo"
  "newTexture demo = (\<lambda>_. None)"
  "baseTexture demo 12 = Some 10" "baseTexture demo 10 = None" "baseTexture demo 13 = None"
  "baseTexture demo 2 = None" "baseTexture demo 3 = None" "baseTexture demo 11 = None"
  "baseTexture demo 20 = None"
  "glTextures demo 10 0 = Some (Some 5)" "glTextures demo 13 0 = Some (Some 6)"
  "glTextures demo 2 0 = Some (Some 0)" "glTextures demo 3 0 = Some (Some 0)"
  "glTextures demo 11 0 = None"
  by (simp_all add: demo_def)


text \<open>The forced bind, lines 417 to 450.\<close>

lemma bindTexture_forced_eq:
  assumes "argTexture s texture location = Some t0"
  shows "bindTexture c s texture location True =
           bind_at c (s\<lparr>touched := (touched s)(resolve s t0 := textureGC_count s)\<rparr>)
             (resolve s t0) (Num (case location of None \<Rightarrow> 0 | Some l \<Rightarrow> l))"
  using assms by (simp add: bindTexture_def Let_def)

lemma demo_bound_eq:
  "demo_bound = demo\<lparr>touched := (touched demo)(10 := 0),
                      boundTextures := [Some 10, Some 3],
                      trace := [ActiveTexture (Num 0), BindTexture2D (Some 5)]\<rparr>"
proof -
  have a: "argTexture demo (Some 12) None = Some 12"
    by (simp add: argTexture_def)
  have r: "resolve demo 12 = 10"
    by (simp add: resolve_def demo_fields)
  let ?s1 = "demo\<lparr>touched := (touched demo)(10 := textureGC_count demo)\<rparr>"
  have "bind_at demo_collab ?s1 10 (Num 0) =
      (Inr (Num 0), ?s1\<lparr>boundTextures := set_slot (boundTextures ?s1) 0 (Some 10),
                     trace := trace ?s1 @ [ActiveTexture (Num 0), BindTexture2D (Some 5)]\<rparr>)"
    by (rule bind_at_direct [where g = demo_ctx]) (simp_all add: demo_fields get_slot_def)
  then show ?thesis
    by (simp add: demo_bound_def bindTexture_forced_eq [OF a] r demo_fields set_slot_def)
qed

lemma upt_2: "[0..<2] = [0, Suc 0]"
  by (simp add: numeral_2_eq_2)

lemma demo_ready_placeholder: "placeholders_ready demo 2"
proof -
  have "placeholder_glt demo 0 = Some (Some 0)"
    by (simp add: placeholder_glt_def get_slot_def demo_fields)
  then show ?thesis
    by (auto simp: placeholders_ready_def demo_fields less_Suc_eq)
qed


text \<open>
  With an empty slot table a call without force and without a location goes on with
  the location NaN (lines 412 to 414): for a texture with a GPU texture it stores the
  texture under \<open>boundTextures[NaN]\<close>, calls the driver and returns NaN, and the counter
  is NaN from then on.
\<close>

lemma bindTexture_empty_table:
  assumes "boundTextures s = []" and "baseTexture s t = None" and "newTexture s t = None"
    and "glTextures s t (CONTEXT_UID s) = Some glt" and "gl s = Some g"
    and "boundNaN s \<noteq> Some t"
  shows "bindTexture c s (Some t) None False =
     (Inr NaN,
      s\<lparr>touched := (touched s)(t := textureGC_count s), nextTextureLocation := NaN,
        boundNaN := Some t, trace := trace s @ [ActiveTexture NaN, BindTexture2D glt]\<rparr>)"
proof -
  have n: "nextLocation 0 (nextTextureLocation s) = (NaN, NaN)"
    by (cases "nextTextureLocation s") simp_all
  show ?thesis
    using assms
    by (simp add: bindTexture_def argTexture_def resolve_def bind_at_def call_def Let_def n)
qed

text \<open>
  The recording of the texture manager is what the count of the binds rests on for a
  texture that is not uploaded: with a manager that leaves the renderer as it is, two
  calls \<open>bindTexture(11)\<close> in a row hand two binds to it, at the slots 0 and 1.
\<close>

lemma bindTexture_upload_not_recorded:
  "trace (bindAll (demo_collab\<lparr>updateTexture := (\<lambda>t l x. x)\<rparr>) demo
            [(Some 11, None), (Some 11, None)])
     = [TM_updateTexture 11 (Num 0), TM_updateTexture 11 (Num 1)]"
  by (simp add: bindTexture_def argTexture_def resolve_def bind_at_def roundRobin_def
      call_def Let_def demo_fields)

subsection \<open>Claims on bindTexture\<close>

text \<open>
  C7: a call of \<open>bindTexture\<close> without force and without a suggested location, for a
  texture that no slot holds, binds at the location \<open>length - counter - 1\<close>, where
  \<open>counter\<close> is \<open>_nextTextureLocation\<close> after its increment modulo the number of slots;
  the location returned is that one and lies below the number of slots. Successive
  such calls (for textures that take the driver bind of the renderer) return the
  successive round-robin choices, and as many choices as there are slots visit every
  slot, each once. The slot table is not empty and the counter is a number \<open>n\<close>.
\<close>

theorem bindTexture_round_robin:
  "(Some (resolve s t0) \<notin> set (boundTextures s) \<and> 0 < length (boundTextures s)
      \<and> nextTextureLocation s = Num n \<longrightarrow>
      bindTexture c s (Some t0) None False =
        bind_at c
          (s\<lparr>touched := (touched s)(resolve s t0 := textureGC_count s),
             nextTextureLocation := Num (Suc n mod length (boundTextures s))\<rparr>)
          (resolve s t0)
          (Num (length (boundTextures s) - Suc n mod length (boundTextures s) - 1))
      \<and> nextTextureLocation (snd (bindTexture c s (Some t0) None False))
           = Num (Suc n mod length (boundTextures s))
      \<and> (\<forall>i. fst (bindTexture c s (Some t0) None False) = Inr i \<longrightarrow>
            (\<exists>k m. i = Num k
               \<and> nextTextureLocation (snd (bindTexture c s (Some t0) None False)) = Num m
               \<and> k = length (boundTextures s) - m - 1
               \<and> k < length (boundTextures s))))
   \<and> (distinct ts \<and> gl s \<noteq> None \<and> 0 < length (boundTextures s)
       \<and> nextTextureLocation s = Num n
       \<and> (\<forall>t \<in> set ts. Some t \<notin> set (boundTextures s) \<and> baseTexture s t = None
              \<and> newTexture s t = None \<and> glTextures s t (CONTEXT_UID s) \<noteq> None) \<longrightarrow>
        fst (bindEach c s ts) =
          map (\<lambda>l. Inr (Num l)) (chosen (length (boundTextures s)) n (length ts)))
   \<and> (0 < len \<longrightarrow> set (chosen len counter len) = {0..<len} \<and> distinct (chosen len counter len))"
proof (intro conjI impI)
  assume a: "Some (resolve s t0) \<notin> set (boundTextures s) \<and> 0 < length (boundTextures s)
      \<and> nextTextureLocation s = Num n"
  then have sc: "scan (boundTextures s) (resolve s t0) 0 = None" and len: "0 < length (boundTextures s)"
    and n: "nextTextureLocation s = Num n"
    by (simp_all add: scan_None)
  note eq = bindTexture_round_robin_eq [OF sc len n, of c]
  show "bindTexture c s (Some t0) None False =
        bind_at c
          (s\<lparr>touched := (touched s)(resolve s t0 := textureGC_count s),
             nextTextureLocation := Num (Suc n mod length (boundTextures s))\<rparr>)
          (resolve s t0)
          (Num (length (boundTextures s) - Suc n mod length (boundTextures s) - 1))"
    by (rule eq)
  show c: "nextTextureLocation (snd (bindTexture c s (Some t0) None False))
           = Num (Suc n mod length (boundTextures s))"
    by (simp add: eq bind_at_frame)
  show "\<forall>i. fst (bindTexture c s (Some t0) None False) = Inr i \<longrightarrow>
            (\<exists>k m. i = Num k
               \<and> nextTextureLocation (snd (bindTexture c s (Some t0) None False)) = Num m
               \<and> k = length (boundTextures s) - m - 1
               \<and> k < length (boundTextures s))"
  proof (intro allI impI)
    fix i assume "fst (bindTexture c s (Some t0) None False) = Inr i"
    then have "i = Num (length (boundTextures s) - Suc n mod length (boundTextures s) - 1)"
      unfolding eq by (rule bind_at_returns)
    with len c show "\<exists>k m. i = Num k
               \<and> nextTextureLocation (snd (bindTexture c s (Some t0) None False)) = Num m
               \<and> k = length (boundTextures s) - m - 1
               \<and> k < length (boundTextures s)"
      by simp
  qed
next
  assume "distinct ts \<and> gl s \<noteq> None \<and> 0 < length (boundTextures s)
       \<and> nextTextureLocation s = Num n
       \<and> (\<forall>t \<in> set ts. Some t \<notin> set (boundTextures s) \<and> baseTexture s t = None
              \<and> newTexture s t = None \<and> glTextures s t (CONTEXT_UID s) \<noteq> None)"
  then show "fst (bindEach c s ts) =
          map (\<lambda>l. Inr (Num l)) (chosen (length (boundTextures s)) n (length ts))"
    by (intro bindEach_fresh) simp_all
next
  assume "0 < len"
  then show "set (chosen len counter len) = {0..<len}" and "distinct (chosen len counter len)"
    by (rule chosen_cycle)+
qed

theorem bindTexture_round_robin_witness:
  "Some (resolve demo 10) \<notin> set (boundTextures demo) \<and> 0 < length (boundTextures demo)
   \<and> nextTextureLocation demo = Num 0
   \<and> nextTextureLocation (snd (bindTexture demo_collab demo (Some 10) None False)) = Num 1
   \<and> distinct [10, 13::nat] \<and> gl demo \<noteq> None
   \<and> fst (bindEach demo_collab demo [10, 13]) = [Inr (Num 0), Inr (Num 1)]
   \<and> set (chosen 2 0 2) = {0..<2}"
proof -
  have r: "resolve demo 10 = 10"
    by (simp add: resolve_def demo_fields)
  have h1: "Some (resolve demo 10) \<notin> set (boundTextures demo) \<and> 0 < length (boundTextures demo)
      \<and> nextTextureLocation demo = Num 0"
    by (simp add: r demo_fields)
  have h2: "distinct [10, 13::nat] \<and> gl demo \<noteq> None \<and> 0 < length (boundTextures demo)
       \<and> nextTextureLocation demo = Num 0
       \<and> (\<forall>t \<in> set [10, 13]. Some t \<notin> set (boundTextures demo) \<and> baseTexture demo t = None
              \<and> newTexture demo t = None \<and> glTextures demo t (CONTEXT_UID demo) \<noteq> None)"
    by (simp add: demo_fields)
  have h3: "0 < (2::nat)"
    by simp
  have ch: "chosen 2 0 2 = [0, 1]"
    by (simp add: numeral_2_eq_2 roundRobin_def)
  note inst = bindTexture_round_robin [of demo 10 0 demo_collab "[10, 13]" 2 0]
  from inst h1 have "nextTextureLocation (snd (bindTexture demo_collab demo (Some 10) None False))
      = Num (Suc 0 mod length (boundTextures demo))"
    by blast
  then have a: "nextTextureLocation (snd (bindTexture demo_collab demo (Some 10) None False)) = Num 1"
    by (simp add: demo_fields)
  from inst h2 have "fst (bindEach demo_collab demo [10, 13]) =
      map (\<lambda>l. Inr (Num l)) (chosen (length (boundTextures demo)) 0 (length [10, 13::nat]))"
    by blast
  moreover have "length (boundTextures demo) = 2" "length [10, 13::nat] = 2"
    by (simp_all add: demo_fields)
  ultimately have "fst (bindEach demo_collab demo [10, 13]) = map (\<lambda>l. Inr (Num l)) [0, 1]"
    by (simp only: ch)
  then have b: "fst (bindEach demo_collab demo [10, 13]) = [Inr (Num 0), Inr (Num 1)]"
    by (simp only: list.map)
  from inst h3 have c: "set (chosen 2 0 2) = {0..<2}"
    by blast
  from h1 h2 a b c show ?thesis
    by blast
qed




text \<open>
  C2, as the code has it: with force set, \<open>bindTexture\<close> skips the scan and binds at the
  given location, or at 0 when none is given. For a texture that has a GPU texture for
  the current context (and no new-style texture), on a renderer that has its context,
  the call returns that location; it records the texture in the slot and calls
  \<open>gl.activeTexture\<close> and \<open>gl.bindTexture\<close> when the slot holds something else, and does
  neither when the slot already holds the texture (lines 440 to 443).
\<close>

theorem bindTexture_forced:
  assumes "argTexture s texture location = Some t0"
  shows "bindTexture c s texture location True =
           bind_at c (s\<lparr>touched := (touched s)(resolve s t0 := textureGC_count s)\<rparr>)
             (resolve s t0) (Num (case location of None \<Rightarrow> 0 | Some l \<Rightarrow> l))
    \<and> (newTexture s (resolve s t0) = None
         \<and> glTextures s (resolve s t0) (CONTEXT_UID s) = Some glt \<and> gl s \<noteq> None \<longrightarrow>
       bindTexture c s texture location True =
         (Inr (Num (case location of None \<Rightarrow> 0 | Some l \<Rightarrow> l)),
          if get_slot (boundTextures s) (case location of None \<Rightarrow> 0 | Some l \<Rightarrow> l)
               = Some (resolve s t0)
          then s\<lparr>touched := (touched s)(resolve s t0 := textureGC_count s)\<rparr>
          else s\<lparr>touched := (touched s)(resolve s t0 := textureGC_count s),
                 boundTextures := set_slot (boundTextures s)
                    (case location of None \<Rightarrow> 0 | Some l \<Rightarrow> l) (Some (resolve s t0)),
                 trace := trace s @ [ActiveTexture (Num (case location of None \<Rightarrow> 0 | Some l \<Rightarrow> l)),
                                     BindTexture2D glt]\<rparr>))"
proof (intro conjI impI)
  show eq: "bindTexture c s texture location True =
           bind_at c (s\<lparr>touched := (touched s)(resolve s t0 := textureGC_count s)\<rparr>)
             (resolve s t0) (Num (case location of None \<Rightarrow> 0 | Some l \<Rightarrow> l))"
    by (rule bindTexture_forced_eq [OF assms])
  assume h: "newTexture s (resolve s t0) = None
         \<and> glTextures s (resolve s t0) (CONTEXT_UID s) = Some glt \<and> gl s \<noteq> None"
  then obtain g where g: "gl s = Some g"
    by auto
  let ?l = "case location of None \<Rightarrow> 0 | Some l \<Rightarrow> l"
  let ?s1 = "s\<lparr>touched := (touched s)(resolve s t0 := textureGC_count s)\<rparr>"
  show "bindTexture c s texture location True =
         (Inr (Num ?l),
          if get_slot (boundTextures s) ?l = Some (resolve s t0)
          then ?s1
          else s\<lparr>touched := (touched s)(resolve s t0 := textureGC_count s),
                 boundTextures := set_slot (boundTextures s) ?l (Some (resolve s t0)),
                 trace := trace s @ [ActiveTexture (Num ?l), BindTexture2D glt]\<rparr>)"
  proof (cases "get_slot (boundTextures s) ?l = Some (resolve s t0)")
    case True
    then have "bind_at c ?s1 (resolve s t0) (Num ?l) = (Inr (Num ?l), ?s1)"
      using h by (intro bind_at_held [where glt = glt]) simp_all
    with True show ?thesis
      by (simp add: eq)
  next
    case False
    then have "bind_at c ?s1 (resolve s t0) (Num ?l) =
        (Inr (Num ?l), ?s1\<lparr>boundTextures := set_slot (boundTextures ?s1) ?l (Some (resolve s t0)),
                       trace := trace ?s1 @ [ActiveTexture (Num ?l), BindTexture2D glt]\<rparr>)"
      using h g by (intro bind_at_direct [where g = g]) simp_all
    with False show ?thesis
      by (simp add: eq)
  qed
qed

theorem bindTexture_forced_witness:
  "argTexture demo (Some 12) None = Some 12
   \<and> newTexture demo (resolve demo 12) = None
   \<and> glTextures demo (resolve demo 12) (CONTEXT_UID demo) = Some (Some 5) \<and> gl demo \<noteq> None
   \<and> bindTexture demo_collab demo (Some 12) None True =
        (Inr (Num 0), demo\<lparr>touched := (touched demo)(10 := 0),
                      boundTextures := [Some 10, Some 3],
                      trace := [ActiveTexture (Num 0), BindTexture2D (Some 5)]\<rparr>)"
proof -
  have a: "argTexture demo (Some 12) None = Some 12"
    by (simp add: argTexture_def)
  have r: "resolve demo 12 = 10"
    by (simp add: resolve_def demo_fields)
  have h: "newTexture demo (resolve demo 12) = None
         \<and> glTextures demo (resolve demo 12) (CONTEXT_UID demo) = Some (Some 5) \<and> gl demo \<noteq> None"
    by (simp add: r demo_fields)
  from bindTexture_forced [OF a, of demo_collab "Some 5", THEN conjunct2, THEN mp, OF h]
  have "bindTexture demo_collab demo (Some 12) None True =
        (Inr (Num 0), demo\<lparr>touched := (touched demo)(10 := 0),
                      boundTextures := [Some 10, Some 3],
                      trace := [ActiveTexture (Num 0), BindTexture2D (Some 5)]\<rparr>)"
    by (simp add: r demo_fields get_slot_def set_slot_def)
  with a h show ?thesis
    by blast
qed

text \<open>
  C2 as stated fails: on the renderer left by \<open>bindTexture(12, undefined, true)\<close>, whose
  slot 0 holds base texture 10, the forced call \<open>bindTexture(10, undefined, true)\<close>
  returns slot 0 and makes no call at all on the driver.
\<close>

theorem bindTexture_forced_skips_bind:
  "get_slot (boundTextures demo_bound) 0 = Some 10
   \<and> fst (bindTexture demo_collab demo_bound (Some 10) None True) = Inr (Num 0)
   \<and> trace (snd (bindTexture demo_collab demo_bound (Some 10) None True)) = trace demo_bound
   \<and> driver_binds (trace (snd (bindTexture demo_collab demo_bound (Some 10) None True)))
        = driver_binds (trace demo_bound)"
proof -
  have g: "get_slot (boundTextures demo_bound) 0 = Some 10"
    by (simp add: demo_bound_eq get_slot_def)
  have r: "resolve demo_bound 10 = 10"
    by (simp add: resolve_def demo_bound_eq demo_fields)
  have h: "newTexture demo_bound 10 = None"
    "glTextures demo_bound 10 (CONTEXT_UID demo_bound) = Some (Some 5)"
    by (simp_all add: demo_bound_eq demo_fields)
  have "bindTexture demo_collab demo_bound (Some 10) None True =
          (Inr (Num 0), demo_bound\<lparr>touched := (touched demo_bound)(10 := textureGC_count demo_bound)\<rparr>)"
    using g r h by (simp add: bindTexture_def argTexture_def bind_at_def Let_def)
  with g show ?thesis
    by simp
qed

subsection \<open>Context initialisation\<close>

lemma set_slot_twice: "set_slot (set_slot xs i a) i b = set_slot xs i b"
proof (cases "i < length xs")
  case True
  then show ?thesis by (simp add: set_slot_def)
next
  case False
  then have "(xs @ replicate (i - length xs) None @ [a])[i := b]
      = xs @ replicate (i - length xs) None @ [b]"
    by (simp add: list_update_append)
  with False show ?thesis by (simp add: set_slot_def)
qed

lemma set_slot_placeholders:
  assumes "i < n"
  shows "set_slot (placeholders r i n) i v =
           map (\<lambda>k. Some (r + k)) [0..<i] @ v # replicate (n - Suc i) None"
proof -
  from assms obtain m where m: "n - i = Suc m"
    by (cases "n - i") simp_all
  then have "n - Suc i = m" by simp
  with assms m show ?thesis
    by (simp add: set_slot_def placeholders_def list_update_append)
qed

lemma placeholders_Suc:
  assumes "i < n"
  shows "set_slot (placeholders r i n) i (Some (r + i)) = placeholders r (Suc i) n"
  by (simp add: set_slot_placeholders [OF assms]) (simp add: placeholders_def)

lemma fresh_not_in_slots:
  assumes "i < n" and "tmp < r"
  shows "Some (r + i) \<notin> set (set_slot (placeholders r i n) i (Some tmp))"
  using assms by (auto simp: set_slot_placeholders)

lemma fill_empty: "fill lo lo f v = f"
  by (auto simp: fill_def fun_eq_iff)

lemma fill_step: "lo < hi \<Longrightarrow> fill (Suc lo) hi (f(lo := v)) v = fill lo hi f v"
  by (auto simp: fill_def fun_eq_iff)


lemma slot_binds_empty: "slot_binds h n n = []"
  by (simp add: slot_binds_def)

lemma slot_binds_step:
  "i < n \<Longrightarrow> slot_binds h i n = [ActiveTexture (Num i), BindTexture2D (Some h)] @ slot_binds h (Suc i) n"
  by (simp add: slot_binds_def upt_conv_Cons)

lemma init_step:
  assumes "i < n" and "gl s = Some g"
    and "boundTextures s = placeholders r i n" and "emptyTextures s = placeholders r i n"
    and "nextRef s = r + i" and "tmp < r"
  shows "initSlots c h tmp i n s =
     initSlots c h tmp (Suc i) n
       (s\<lparr>nextRef := r + Suc i,
          baseTexture := (baseTexture s)(r + i := None),
          glTextures := (glTextures s)(r + i := (\<lambda>_. None)(CONTEXT_UID s := Some (Some h))),
          newTexture := (newTexture s)(r + i := None),
          touched := (touched s)(r + i := textureGC_count s),
          boundTextures := placeholders r (Suc i) n,
          emptyTextures := placeholders r (Suc i) n,
          trace := trace s @ [ActiveTexture (Num i), BindTexture2D (Some h)]\<rparr>)"
proof -
  have sc: "scan (set_slot (placeholders r i n) i (Some tmp)) (r + i) 0 = None"
    using fresh_not_in_slots [OF assms(1,6)] by (simp add: scan_None)
  have ne: "tmp \<noteq> r + i"
    using assms(6) by simp
  show ?thesis
    apply (subst initSlots.simps)
    apply (simp add: assms new_object_def bindTexture_def argTexture_def resolve_def bind_at_def
        call_def Let_def get_set_slot sc ne set_slot_twice placeholders_Suc)
    apply (rule arg_cong [where f = "initSlots c h tmp (Suc i) n"])
    apply (rule renderer.equality)
                        apply simp_all
    done
qed

lemma init_loop:
  assumes "i \<le> n" and "gl s = Some g"
    and "boundTextures s = placeholders r i n" and "emptyTextures s = placeholders r i n"
    and "nextRef s = r + i" and "tmp < r"
  shows "initSlots c h tmp i n s =
     (None,
      s\<lparr>nextRef := r + n,
        baseTexture := fill (r + i) (r + n) (baseTexture s) None,
        glTextures := fill (r + i) (r + n) (glTextures s)
                        ((\<lambda>_. None)(CONTEXT_UID s := Some (Some h))),
        newTexture := fill (r + i) (r + n) (newTexture s) None,
        touched := fill (r + i) (r + n) (touched s) (textureGC_count s),
        boundTextures := placeholders r n n,
        emptyTextures := placeholders r n n,
        trace := trace s @ slot_binds h i n\<rparr>)"
  using assms
proof (induction "n - i" arbitrary: i s)
  case 0
  then have "i = n" by simp
  with 0 show ?case
    by (subst initSlots.simps) (simp add: fill_empty slot_binds_empty)
next
  case (Suc d)
  then have lt: "i < n" by simp
  let ?s5 = "s\<lparr>nextRef := r + Suc i,
          baseTexture := (baseTexture s)(r + i := None),
          glTextures := (glTextures s)(r + i := (\<lambda>_. None)(CONTEXT_UID s := Some (Some h))),
          newTexture := (newTexture s)(r + i := None),
          touched := (touched s)(r + i := textureGC_count s),
          boundTextures := placeholders r (Suc i) n,
          emptyTextures := placeholders r (Suc i) n,
          trace := trace s @ [ActiveTexture (Num i), BindTexture2D (Some h)]\<rparr>"
  have step: "initSlots c h tmp i n s = initSlots c h tmp (Suc i) n ?s5"
    by (rule init_step [OF lt Suc.prems(2-6)])
  have d: "d = n - Suc i" using Suc.hyps(2) by simp
  have le: "Suc i \<le> n" using lt by simp
  have "initSlots c h tmp (Suc i) n ?s5 =
     (None,
      ?s5\<lparr>nextRef := r + n,
        baseTexture := fill (r + Suc i) (r + n) (baseTexture ?s5) None,
        glTextures := fill (r + Suc i) (r + n) (glTextures ?s5)
                        ((\<lambda>_. None)(CONTEXT_UID ?s5 := Some (Some h))),
        newTexture := fill (r + Suc i) (r + n) (newTexture ?s5) None,
        touched := fill (r + Suc i) (r + n) (touched ?s5) (textureGC_count ?s5),
        boundTextures := placeholders r n n,
        emptyTextures := placeholders r n n,
        trace := trace ?s5 @ slot_binds h (Suc i) n\<rparr>)"
    by (rule Suc.hyps(1) [OF d le]) (simp_all add: Suc.prems)
  then show ?case
    using lt by (simp add: step fill_step slot_binds_step)
qed

lemma placeholders_0: "placeholders r 0 n = replicate n None"
  by (simp add: placeholders_def)

lemma placeholders_full: "placeholders r n n = map (\<lambda>k. Some (r + k)) [0..<n]"
  by (simp add: placeholders_def)

lemma initContext_closed:
  assumes "gl s = Some g"
  shows "initContext c s =
     (None,
      s\<lparr>boundTextures := placeholders (Suc (nextRef s)) (MAX_TEXTURE_IMAGE_UNITS g) (MAX_TEXTURE_IMAGE_UNITS g),
        boundNaN := None,
        emptyTextures := placeholders (Suc (nextRef s)) (MAX_TEXTURE_IMAGE_UNITS g) (MAX_TEXTURE_IMAGE_UNITS g),
        textureManager := True,
        textureGC_count := new_gc_count c,
        nextHandle := Suc (nextHandle s),
        nextRef := Suc (nextRef s) + MAX_TEXTURE_IMAGE_UNITS g,
        baseTexture := fill (Suc (nextRef s)) (Suc (nextRef s) + MAX_TEXTURE_IMAGE_UNITS g)
                         ((baseTexture s)(nextRef s := None)) None,
        glTextures := fill (Suc (nextRef s)) (Suc (nextRef s) + MAX_TEXTURE_IMAGE_UNITS g)
                         ((glTextures s)(nextRef s := (\<lambda>_. None)(CONTEXT_UID s := Some None)))
                         ((\<lambda>_. None)(CONTEXT_UID s := Some (Some (nextHandle s)))),
        newTexture := fill (Suc (nextRef s)) (Suc (nextRef s) + MAX_TEXTURE_IMAGE_UNITS g)
                         ((newTexture s)(nextRef s := None)) None,
        touched := fill (Suc (nextRef s)) (Suc (nextRef s) + MAX_TEXTURE_IMAGE_UNITS g)
                         ((touched s)(nextRef s := 0)) (new_gc_count c),
        trace := trace s
          @ (if isContextLost g \<and> WEBGL_lose_context g then [RestoreContext] else [])
          @ [Construct ''TextureManager'', Construct ''TextureGarbageCollector'',
             Construct ''ShaderManager'', State_resetToDefault, GLTexture_fromData (nextHandle s)]
          @ slot_binds (nextHandle s) 0 (MAX_TEXTURE_IMAGE_UNITS g)
          @ [Emit ''context'', SystemRenderer_resize (fst (screen s)) (snd (screen s)),
             RenderTexture_resize (fst (screen s)) (snd (screen s))]\<rparr>)"
  apply (simp add: initContext_def assms Let_def new_object_def call_def resize_def split_beta
      init_loop [where i = 0 and g = g and r = "Suc (nextRef s)"] placeholders_0)
  done


lemma initContext_fields:
  assumes "gl s = Some g"
  shows "fst (initContext c s) = None"
    and "CONTEXT_UID (snd (initContext c s)) = CONTEXT_UID s"
    and "gl (snd (initContext c s)) = gl s"
    and "boundTextures (snd (initContext c s)) =
           map (\<lambda>i. Some (Suc (nextRef s + i))) [0..<MAX_TEXTURE_IMAGE_UNITS g]"
    and "emptyTextures (snd (initContext c s)) =
           map (\<lambda>i. Some (Suc (nextRef s + i))) [0..<MAX_TEXTURE_IMAGE_UNITS g]"
    and "trace (snd (initContext c s)) = trace s
          @ (if isContextLost g \<and> WEBGL_lose_context g then [RestoreContext] else [])
          @ [Construct ''TextureManager'', Construct ''TextureGarbageCollector'',
             Construct ''ShaderManager'', State_resetToDefault, GLTexture_fromData (nextHandle s)]
          @ slot_binds (nextHandle s) 0 (MAX_TEXTURE_IMAGE_UNITS g)
          @ [Emit ''context'', SystemRenderer_resize (fst (screen s)) (snd (screen s)),
             RenderTexture_resize (fst (screen s)) (snd (screen s))]"
    and "i < MAX_TEXTURE_IMAGE_UNITS g \<Longrightarrow>
           glTextures (snd (initContext c s)) (Suc (nextRef s + i)) =
             (\<lambda>_. None)(CONTEXT_UID s := Some (Some (nextHandle s)))"
    and "x < nextRef s \<Longrightarrow> glTextures (snd (initContext c s)) x = glTextures s x"
    and "x < nextRef s \<Longrightarrow> baseTexture (snd (initContext c s)) x = baseTexture s x"
  by (simp_all add: initContext_closed [OF assms] placeholders_full fill_def)




subsection \<open>Claims on context restoration\<close>




subsection \<open>Slot exclusivity\<close>

lemma exclusive_nth:
  assumes "exclusive bt" and "i < j" and "j < length bt" and "bt ! i = Some t"
  shows "bt ! j \<noteq> Some t"
proof
  assume j: "bt ! j = Some t"
  have split: "bt = take j bt @ bt ! j # drop (Suc j) bt"
    using assms(3) by (rule id_take_nth_drop)
  have "Some t \<in> set (take j bt)"
    using assms(2,3,4) by (metis in_set_conv_nth length_take min.absorb2 less_imp_le_nat nth_take)
  moreover have "distinct (filter (\<lambda>x. x \<noteq> None) (take j bt @ bt ! j # drop (Suc j) bt))"
    using assms(1) split by (simp add: exclusive_def)
  ultimately show False
    using j by simp
qed

lemma exclusive_set_slot:
  assumes "exclusive bt" and "Some t \<notin> set bt"
  shows "exclusive (set_slot bt l (Some t))"
proof (cases "l < length bt")
  case True
  have split: "bt = take l bt @ bt ! l # drop (Suc l) bt"
    using True by (rule id_take_nth_drop)
  have upd: "bt[l := Some t] = take l bt @ Some t # drop (Suc l) bt"
    using True by (rule upd_conv_take_nth_drop)
  have d: "distinct (filter (\<lambda>x. x \<noteq> None) (take l bt @ bt ! l # drop (Suc l) bt))"
    using assms(1) split by (simp add: exclusive_def)
  have n1: "Some t \<notin> set (take l bt)" and n2: "Some t \<notin> set (drop (Suc l) bt)"
    using assms(2) by (auto dest: in_set_takeD in_set_dropD)
  from d n1 n2 have "distinct (filter (\<lambda>x. x \<noteq> None) (take l bt @ Some t # drop (Suc l) bt))"
    by (auto split: if_splits)
  with True upd show ?thesis
    by (simp add: exclusive_def set_slot_def)
next
  case False
  with assms show ?thesis
    by (simp add: exclusive_def set_slot_def)
qed

lemma exclusive_placeholders:
  "inj_on f (set xs) \<Longrightarrow> distinct xs \<Longrightarrow> exclusive (map (\<lambda>i. Some (f i)) xs)"
  by (simp add: exclusive_def distinct_map inj_on_def)

lemma exclusive_record_at:
  assumes "exclusive bt" and "Some t \<notin> set bt"
  shows "exclusive (record_at bt l t)"
  using assms by (cases l) (simp_all add: exclusive_set_slot)

lemma bind_at_exclusive:
  assumes "table_contract c" and "exclusive (boundTextures s)"
    and "Some t \<notin> set (boundTextures s)"
  shows "exclusive (boundTextures (snd (bind_at c s t l)))"
proof (cases "newTexture s t")
  case (Some nt)
  have "fst (newBindTexture c nt l (boundTextures s, boundNaN s, glTextures s)) = boundTextures s"
    using assms(1) by (simp add: table_contract_def)
  with Some assms(2) show ?thesis
    by (simp add: bind_at_def call_def Let_def split_beta)
next
  case None
  note nt = this
  show ?thesis
  proof (cases "glTextures s t (CONTEXT_UID s)")
    case None
    have "fst (updateTexture c t l (boundTextures s, boundNaN s, glTextures s)) = boundTextures s
          \<or> fst (updateTexture c t l (boundTextures s, boundNaN s, glTextures s))
               = record_at (boundTextures s) l t"
      using assms(1) by (simp add: table_contract_def)
    with None nt assms(2) exclusive_record_at [OF assms(2,3), of l] show ?thesis
      by (auto simp: bind_at_def call_def Let_def split_beta)
  next
    case (Some glt)
    with nt assms(2) exclusive_record_at [OF assms(2,3), of l] show ?thesis
      by (cases "gl s") (simp_all add: bind_at_def call_def Let_def)
  qed
qed

lemma bindTexture_exclusive:
  assumes "table_contract c" and "exclusive (boundTextures s)"
  shows "exclusive (boundTextures (snd (bindTexture c s texture location False)))"
proof (cases "argTexture s texture location")
  case None
  with assms(2) show ?thesis
    by (simp add: bindTexture_def)
next
  case (Some t0)
  let ?t = "resolve s t0"
  let ?s1 = "s\<lparr>touched := (touched s)(?t := textureGC_count s)\<rparr>"
  show ?thesis
  proof (cases "scan (boundTextures s) ?t 0")
    case (Some i)
    with \<open>argTexture s texture location = Some t0\<close> assms(2) show ?thesis
      by (simp add: bindTexture_def Let_def)
  next
    case None
    then have notin: "Some ?t \<notin> set (boundTextures ?s1)"
      by (simp add: scan_None)
    have ex: "exclusive (boundTextures ?s1)"
      using assms(2) by simp
    note at = bind_at_exclusive [OF assms(1)]
    show ?thesis
    proof (cases location)
      case (Some l)
      with None \<open>argTexture s texture location = Some t0\<close> at [OF ex notin, of "Num l"] show ?thesis
        by (simp add: bindTexture_def Let_def)
    next
      case loc: None
      let ?n = "fst (nextLocation (length (boundTextures s)) (nextTextureLocation s))"
      let ?l = "snd (nextLocation (length (boundTextures s)) (nextTextureLocation s))"
      have "exclusive (boundTextures (snd (bind_at c (?s1\<lparr>nextTextureLocation := ?n\<rparr>) ?t ?l)))"
        by (rule at) (use ex notin in simp_all)
      with None loc \<open>argTexture s texture location = Some t0\<close> show ?thesis
        by (simp add: bindTexture_def Let_def split_beta)
    qed
  qed
qed

lemma bindAll_exclusive:
  assumes "table_contract c" and "exclusive (boundTextures s)"
  shows "exclusive (boundTextures (bindAll c s calls))"
  using assms(2)
proof (induction calls arbitrary: s)
  case Nil
  then show ?case by simp
next
  case (Cons call calls)
  obtain texture location where "call = (texture, location)"
    by (cases call)
  with Cons.IH [OF bindTexture_exclusive [OF assms(1) Cons.prems]] show ?case
    by simp
qed

lemma WebGLRenderer_eq:
  "WebGLRenderer c ctx uid clearBefore scr =
     (None, (call (Construct ''FilterManager'') (snd (initContext c
        \<lparr>gl = Some ctx, CONTEXT_UID = uid, boundTextures = [], boundNaN = None,
                emptyTextures = [],
                nextTextureLocation = NaN, textureGC_count = 0, textureManager = False,
                newTextureManager = False, currentRenderer = Some 0, emptyRenderer = 0,
                renderingToScreen = True, clearBeforeRender = clearBefore,
                lastObjectRendered = None, screen = scr,
                baseTexture = (\<lambda>_. None), glTextures = (\<lambda>_ _. None),
                newTexture = (\<lambda>_. None), touched = (\<lambda>_. 0),
                nextRef = 1, nextHandle = 0,
                trace = [Construct ''MaskManager'', Construct ''StencilManager'',
                         Construct ''ObjectRenderer'', Construct ''FramebufferManager'',
                         Construct ''NewTextureManager'', Construct ''RenderTextureManager'',
                         Construct ''ProjectionManager'', Construct ''StateManager'',
                         State_setBlendMode 0]\<rparr>)))\<lparr>nextTextureLocation := Num 0\<rparr>)"
  (is "_ = (None, (call _ (snd (initContext c ?s0)))\<lparr>nextTextureLocation := Num 0\<rparr>)")
proof -
  have g: "gl ?s0 = Some ctx" by simp
  obtain s1 where s1: "initContext c ?s0 = (None, s1)"
    using initContext_fields(1) [OF g, of c] by (cases "initContext c ?s0") auto
  show ?thesis
    unfolding WebGLRenderer_def Let_def s1 by simp
qed


text \<open>
  C6: after the initialisation of the slot table (by \<open>_initContext\<close>, or by the
  constructor, which runs it) and any sequence of calls of \<open>bindTexture\<close> without
  force, no two slots hold the same texture. The two texture managers are taken to
  respect the slot table as \<open>table_contract\<close> says.
\<close>

theorem bindTexture_slot_exclusive:
  assumes "table_contract c"
  shows "(gl s \<noteq> None \<longrightarrow> exclusive (boundTextures (bindAll c (snd (initContext c s)) calls)))
    \<and> exclusive (boundTextures (bindAll c (snd (WebGLRenderer c ctx uid clearBefore scr)) calls))
    \<and> (\<forall>i j t. i < j \<and> j < length (boundTextures (bindAll c (snd (WebGLRenderer c ctx uid clearBefore scr)) calls))
          \<and> boundTextures (bindAll c (snd (WebGLRenderer c ctx uid clearBefore scr)) calls) ! i = Some t
        \<longrightarrow> boundTextures (bindAll c (snd (WebGLRenderer c ctx uid clearBefore scr)) calls) ! j \<noteq> Some t)"
proof (intro conjI impI allI)
  assume "gl s \<noteq> None"
  then obtain g where g: "gl s = Some g" by auto
  show "exclusive (boundTextures (bindAll c (snd (initContext c s)) calls))"
    by (rule bindAll_exclusive [OF assms]) (simp add: initContext_fields [OF g] exclusive_placeholders inj_on_def)
next
  show ex: "exclusive (boundTextures (bindAll c (snd (WebGLRenderer c ctx uid clearBefore scr)) calls))"
    by (rule bindAll_exclusive [OF assms])
      (simp add: WebGLRenderer_eq call_def initContext_fields exclusive_placeholders inj_on_def)
  fix i j t
  assume "i < j \<and> j < length (boundTextures (bindAll c (snd (WebGLRenderer c ctx uid clearBefore scr)) calls))
          \<and> boundTextures (bindAll c (snd (WebGLRenderer c ctx uid clearBefore scr)) calls) ! i = Some t"
  with exclusive_nth [OF ex, of i j t]
  show "boundTextures (bindAll c (snd (WebGLRenderer c ctx uid clearBefore scr)) calls) ! j \<noteq> Some t"
    by simp
qed

theorem bindTexture_slot_exclusive_witness:
  "table_contract demo_collab \<and> gl demo \<noteq> None
   \<and> exclusive (boundTextures (bindAll demo_collab (snd (initContext demo_collab demo))
         [(Some 10, None), (Some 11, Some 0), (None, Some 1), (Some 12, Some 1)]))
   \<and> exclusive (boundTextures (bindAll demo_collab
         (snd (WebGLRenderer demo_collab demo_ctx 0 True (800, 600)))
         [(Some 10, None), (Some 11, Some 0), (None, Some 1), (Some 12, Some 1)]))"
proof -
  have tc: "table_contract demo_collab"
    by (simp add: table_contract_def demo_collab_def)
  have g: "gl demo \<noteq> None"
    by (simp add: demo_fields)
  from bindTexture_slot_exclusive [OF tc, of demo
      "[(Some 10, None), (Some 11, Some 0), (None, Some 1), (Some 12, Some 1)]" demo_ctx 0 True "(800, 600)"]
    tc g
  show ?thesis
    by blast
qed

subsection \<open>The concrete renderer is a constructed one\<close>

text \<open>
  The renderer \<open>demo\<close> is the result of the constructor for a context with two texture
  units, with the textures of the application added, the counters for new objects moved
  past them, and the trace emptied.
\<close>

lemma demo_constructed:
  "demo = (snd (WebGLRenderer demo_collab demo_ctx 0 True (800, 600)))
     \<lparr>baseTexture := (\<lambda>_. None)(12 := Some 10),
      glTextures := (glTextures (snd (WebGLRenderer demo_collab demo_ctx 0 True (800, 600))))
        (10 := (\<lambda>_. None)(0 := Some (Some 5)),
         13 := (\<lambda>_. None)(0 := Some (Some 6))),
      nextRef := 14, nextHandle := 7, trace := []\<rparr>"
proof -
  have n: "MAX_TEXTURE_IMAGE_UNITS demo_ctx = 2"
    by (simp add: demo_ctx_def)
  have ph: "placeholders (Suc (Suc 0)) 2 2 = [Some 2, Some 3]"
    by (simp add: placeholders_def upt_2)
  show ?thesis
    apply (simp add: WebGLRenderer_eq initContext_closed [where g = demo_ctx] n call_def ph)
    apply (simp add: demo_def)
    apply (simp add: demo_collab_def fill_def fun_eq_iff)
    done
qed

subsection \<open>unbindTexture\<close>

lemma placeholder_glt_upd:
  "placeholder_glt (s\<lparr>boundTextures := bt, trace := tr\<rparr>) j = placeholder_glt s j"
  by (simp add: placeholder_glt_def split: option.split)

lemma unbind_step_held:
  assumes "i < length (boundTextures s)" and "boundTextures s ! i = Some t"
    and "gl s = Some g" and "placeholder_glt s i = Some glt"
  shows "unbindLoop t i s =
     unbindLoop t (Suc i)
       (s\<lparr>boundTextures := (boundTextures s)[i := get_slot (emptyTextures s) i],
          trace := trace s @ [ActiveTexture (Num i), BindTexture2D glt]\<rparr>)"
proof -
  from assms(4) obtain e where e: "get_slot (emptyTextures s) i = Some e"
    and h: "glTextures s e (CONTEXT_UID s) = Some glt"
    by (auto simp: placeholder_glt_def split: option.splits)
  show ?thesis
    by (subst unbindLoop.simps) (simp add: assms e h call_def Let_def)
qed

lemma unbind_step_other:
  assumes "i < length (boundTextures s)" and "boundTextures s ! i \<noteq> Some t"
  shows "unbindLoop t i s = unbindLoop t (Suc i) s"
  by (subst unbindLoop.simps) (simp add: assms)

lemma unbindLoop_closed:
  assumes "gl s = Some g"
    and "\<forall>j. i \<le> j \<and> j < length (boundTextures s) \<and> boundTextures s ! j = Some t
            \<longrightarrow> placeholder_glt s j \<noteq> None"
  shows "unbindLoop t i s =
     (None,
      s\<lparr>boundTextures := take i (boundTextures s)
                            @ map (unbind_slot s t) [i..<length (boundTextures s)],
        trace := trace s @ concat (map (unbind_calls s t) [i..<length (boundTextures s)])\<rparr>)"
  using assms
proof (induction "length (boundTextures s) - i" arbitrary: i s)
  case 0
  then have "length (boundTextures s) \<le> i" by simp
  then show ?case
    by (subst unbindLoop.simps) simp
next
  case (Suc d)
  then have lt: "i < length (boundTextures s)" by simp
  let ?n = "length (boundTextures s)"
  have upt: "[i..<?n] = i # [Suc i..<?n]"
    using lt by (simp add: upt_conv_Cons)
  show ?case
  proof (cases "boundTextures s ! i = Some t")
    case False
    have "unbindLoop t (Suc i) s =
       (None, s\<lparr>boundTextures := take (Suc i) (boundTextures s)
                            @ map (unbind_slot s t) [Suc i..<?n],
                 trace := trace s @ concat (map (unbind_calls s t) [Suc i..<?n])\<rparr>)"
      by (rule Suc.hyps(1)) (use Suc.hyps(2) Suc.prems in auto)
    with False lt show ?thesis
      by (simp add: unbind_step_other upt unbind_slot_def unbind_calls_def take_Suc_conv_app_nth)
  next
    case True
    with Suc.prems(2) lt obtain glt where glt: "placeholder_glt s i = Some glt"
      by auto
    let ?s' = "s\<lparr>boundTextures := (boundTextures s)[i := get_slot (emptyTextures s) i],
          trace := trace s @ [ActiveTexture (Num i), BindTexture2D glt]\<rparr>"
    have step: "unbindLoop t i s = unbindLoop t (Suc i) ?s'"
      by (rule unbind_step_held [OF lt True Suc.prems(1) glt])
    have same: "unbind_slot ?s' t j = unbind_slot s t j" "unbind_calls ?s' t j = unbind_calls s t j"
      if "Suc i \<le> j" for j
      using that by (simp_all add: unbind_slot_def unbind_calls_def placeholder_glt_upd)
    have ih: "unbindLoop t (Suc i) ?s' =
       (None, ?s'\<lparr>boundTextures := take (Suc i) (boundTextures ?s')
                            @ map (unbind_slot ?s' t) [Suc i..<length (boundTextures ?s')],
                 trace := trace ?s' @ concat (map (unbind_calls ?s' t) [Suc i..<length (boundTextures ?s')])\<rparr>)"
      by (rule Suc.hyps(1))
        (use Suc.hyps(2) Suc.prems in \<open>auto simp: placeholder_glt_upd\<close>)
    have m1: "map (unbind_slot ?s' t) [Suc i..<?n] = map (unbind_slot s t) [Suc i..<?n]"
      and m2: "map (unbind_calls ?s' t) [Suc i..<?n] = map (unbind_calls s t) [Suc i..<?n]"
      using same by simp_all
    have tk: "take (Suc i) ((boundTextures s)[i := get_slot (emptyTextures s) i])
         = take i (boundTextures s) @ [get_slot (emptyTextures s) i]"
      using lt by (simp add: take_Suc_conv_app_nth)
    from True glt lt show ?thesis
      by (simp add: step ih m1 m2 tk upt unbind_slot_def unbind_calls_def)
  qed
qed

lemma unbindTexture_eq:
  assumes "gl s \<noteq> None" and "placeholders_ready s (resolve s texture)"
  shows "unbindTexture s texture =
     (None,
      s\<lparr>boundTextures := map (unbind_slot s (resolve s texture)) [0..<length (boundTextures s)],
        trace := trace s @ concat (map (unbind_calls s (resolve s texture))
                   [0..<length (boundTextures s)])\<rparr>)"
proof -
  from assms(1) obtain g where g: "gl s = Some g" by auto
  have "\<forall>j. 0 \<le> j \<and> j < length (boundTextures s) \<and> boundTextures s ! j = Some (resolve s texture)
            \<longrightarrow> placeholder_glt s j \<noteq> None"
    using assms(2) by (simp add: placeholders_ready_def)
  from unbindLoop_closed [OF g this] show ?thesis
    by (simp add: unbindTexture_def)
qed


text \<open>
  C8, as the code has it: \<open>unbindTexture(t)\<close>, on a renderer that has its \<open>gl\<close> object and a
  placeholder with a GPU texture for every slot that holds the resolved base texture of
  \<open>t\<close>, raises nothing; every slot that held the texture is reset to the placeholder of
  the slot and rebound on the driver (\<open>gl.activeTexture\<close>, \<open>gl.bindTexture\<close> of the
  placeholder's GPU texture), the other slots are unchanged and cause no call; after
  the call a slot holds the texture only if it held it before and the texture is the
  placeholder of that very slot.
\<close>

theorem unbindTexture_resets:
  assumes "gl s \<noteq> None" and "placeholders_ready s (resolve s texture)"
  shows "unbindTexture s texture =
     (None,
      s\<lparr>boundTextures := map (unbind_slot s (resolve s texture)) [0..<length (boundTextures s)],
        trace := trace s @ concat (map (unbind_calls s (resolve s texture))
                   [0..<length (boundTextures s)])\<rparr>)
    \<and> length (boundTextures (snd (unbindTexture s texture))) = length (boundTextures s)
    \<and> (\<forall>i < length (boundTextures s). boundTextures s ! i = Some (resolve s texture) \<longrightarrow>
          boundTextures (snd (unbindTexture s texture)) ! i = get_slot (emptyTextures s) i
          \<and> (\<exists>glt. placeholder_glt s i = Some glt
                \<and> unbind_calls s (resolve s texture) i = [ActiveTexture (Num i), BindTexture2D glt]))
    \<and> (\<forall>i < length (boundTextures s). boundTextures s ! i \<noteq> Some (resolve s texture) \<longrightarrow>
          boundTextures (snd (unbindTexture s texture)) ! i = boundTextures s ! i
          \<and> unbind_calls s (resolve s texture) i = [])
    \<and> (\<forall>i < length (boundTextures s).
          boundTextures (snd (unbindTexture s texture)) ! i = Some (resolve s texture) \<longrightarrow>
          boundTextures s ! i = Some (resolve s texture)
          \<and> get_slot (emptyTextures s) i = Some (resolve s texture))"
proof -
  note eq = unbindTexture_eq [OF assms]
  have ready: "placeholder_glt s i \<noteq> None"
    if "i < length (boundTextures s)" "boundTextures s ! i = Some (resolve s texture)" for i
    using assms(2) that by (simp add: placeholders_ready_def)
  show ?thesis
  proof (intro conjI allI impI)
    show "unbindTexture s texture =
     (None,
      s\<lparr>boundTextures := map (unbind_slot s (resolve s texture)) [0..<length (boundTextures s)],
        trace := trace s @ concat (map (unbind_calls s (resolve s texture))
                   [0..<length (boundTextures s)])\<rparr>)"
      by (rule eq)
    show "length (boundTextures (snd (unbindTexture s texture))) = length (boundTextures s)"
      by (simp add: eq)
  next
    fix i assume i: "i < length (boundTextures s)" and h: "boundTextures s ! i = Some (resolve s texture)"
    show "boundTextures (snd (unbindTexture s texture)) ! i = get_slot (emptyTextures s) i"
      using i h by (simp add: eq unbind_slot_def)
    from ready [OF i h] obtain glt where "placeholder_glt s i = Some glt"
      by auto
    with h show "\<exists>glt. placeholder_glt s i = Some glt
                \<and> unbind_calls s (resolve s texture) i = [ActiveTexture (Num i), BindTexture2D glt]"
      by (simp add: unbind_calls_def)
  next
    fix i assume i: "i < length (boundTextures s)" and h: "boundTextures s ! i \<noteq> Some (resolve s texture)"
    show "boundTextures (snd (unbindTexture s texture)) ! i = boundTextures s ! i"
      using i h by (simp add: eq unbind_slot_def)
    show "unbind_calls s (resolve s texture) i = []"
      using h by (simp add: unbind_calls_def)
  next
    fix i assume i: "i < length (boundTextures s)"
      and h: "boundTextures (snd (unbindTexture s texture)) ! i = Some (resolve s texture)"
    from i h have u: "unbind_slot s (resolve s texture) i = Some (resolve s texture)"
      by (simp add: eq)
    then show "boundTextures s ! i = Some (resolve s texture)"
      by (simp add: unbind_slot_def split: if_splits)
    with u show "get_slot (emptyTextures s) i = Some (resolve s texture)"
      by (simp add: unbind_slot_def)
  qed
qed

theorem unbindTexture_resets_witness:
  "gl demo_bound \<noteq> None \<and> placeholders_ready demo_bound (resolve demo_bound 12)
   \<and> boundTextures demo_bound = [Some 10, Some 3]
   \<and> unbindTexture demo_bound 12 =
       (None, demo_bound\<lparr>boundTextures := [Some 2, Some 3],
                trace := trace demo_bound @ [ActiveTexture (Num 0), BindTexture2D (Some 0)]\<rparr>)"
proof -
  have g: "gl demo_bound \<noteq> None"
    by (simp add: demo_bound_eq demo_fields)
  have r: "resolve demo_bound 12 = 10"
    by (simp add: resolve_def demo_bound_eq demo_fields)
  have p: "placeholder_glt demo_bound 0 = Some (Some 0)"
    by (simp add: placeholder_glt_def get_slot_def demo_bound_eq demo_fields)
  have bt: "boundTextures demo_bound = [Some 10, Some 3]"
    by (simp add: demo_bound_eq)
  have ready: "placeholders_ready demo_bound (resolve demo_bound 12)"
    by (auto simp: placeholders_ready_def r bt p less_Suc_eq)
  have et: "get_slot (emptyTextures demo_bound) 0 = Some 2"
    by (simp add: get_slot_def demo_bound_eq demo_fields)
  from unbindTexture_resets [OF g ready]
  have "unbindTexture demo_bound 12 =
     (None,
      demo_bound\<lparr>boundTextures := map (unbind_slot demo_bound (resolve demo_bound 12))
                                    [0..<length (boundTextures demo_bound)],
        trace := trace demo_bound @ concat (map (unbind_calls demo_bound (resolve demo_bound 12))
                   [0..<length (boundTextures demo_bound)])\<rparr>)"
    by (rule conjunct1)
  then have "unbindTexture demo_bound 12 =
       (None, demo_bound\<lparr>boundTextures := [Some 2, Some 3],
                trace := trace demo_bound @ [ActiveTexture (Num 0), BindTexture2D (Some 0)]\<rparr>)"
    by (simp add: r bt upt_2 unbind_slot_def unbind_calls_def p et)
  with g ready bt show ?thesis
    by blast
qed


text \<open>
  C8 as stated fails: texture 2 is the placeholder of slot 0 and slot 0 holds it; after
  \<open>unbindTexture(2)\<close> slot 0 has been rebound on the driver and holds texture 2 still.
\<close>

theorem unbindTexture_placeholder_stays:
  "boundTextures demo ! 0 = Some 2
   \<and> fst (unbindTexture demo 2) = None
   \<and> boundTextures (snd (unbindTexture demo 2)) ! 0 = Some 2
   \<and> trace (snd (unbindTexture demo 2)) = [ActiveTexture (Num 0), BindTexture2D (Some 0)]"
proof -
  have g: "gl demo \<noteq> None"
    by (simp add: demo_fields)
  have r: "resolve demo 2 = 2"
    by (simp add: resolve_def demo_fields)
  have p: "placeholder_glt demo 0 = Some (Some 0)"
    by (simp add: placeholder_glt_def get_slot_def demo_fields)
  have et: "get_slot (emptyTextures demo) 0 = Some 2"
    by (simp add: get_slot_def demo_fields)
  have ready: "placeholders_ready demo (resolve demo 2)"
    by (simp add: r demo_ready_placeholder)
  show ?thesis
    by (simp add: unbindTexture_eq [OF g ready] r demo_fields upt_2
        unbind_slot_def unbind_calls_def p get_slot_def)
qed

end
